theory Spec2Isabelle
  imports Complex_Main
begin

section \<open>The material state and property engine of adamantine\<close>

text \<open>
  A shallow embedding of \<^verbatim>\<open>MaterialProperty.templates.hh\<close> and of the cell activation
  of \<^verbatim>\<open>MechanicalPhysics.cc\<close>.

  A C++ \<^verbatim>\<open>double\<close> is modelled by a \<^typ>\<open>real\<close>: rounding, overflow and the
  IEEE special values are not part of the model. The one place where this would hide
  a failure is division, since \<open>x / 0\<close> is \<open>0\<close> in HOL; every division of the source
  is therefore written with \<open>fdiv\<close>, which reports a zero divisor as an error. What the
  machine does after such a division is followed in a second model of the phase update,
  which keeps the NaN.
  An \<^verbatim>\<open>unsigned int\<close> is a \<^typ>\<open>nat\<close>; the subtractions on indices are
  written with \<open>u32_sub\<close>, which wraps as the machine does.
\<close>

subsection \<open>Errors, division, \<^verbatim>\<open>std::min\<close> and \<^verbatim>\<open>std::max\<close>\<close>

datatype error =
    DivisionByZero
  | ConfigurationError string
  | AssertionFailure string
  | InvalidArgument string

definition bind_e :: "error + 'a \<Rightarrow> ('a \<Rightarrow> error + 'b) \<Rightarrow> error + 'b" where
  "bind_e m f = (case m of Inl e \<Rightarrow> Inl e | Inr x \<Rightarrow> f x)"

definition fdiv :: "real \<Rightarrow> real \<Rightarrow> error + real" where
  "fdiv a b = (if b = 0 then Inl DivisionByZero else Inr (a / b))"

definition std_min :: "real \<Rightarrow> real \<Rightarrow> real" where
  \<comment> \<open>\<^verbatim>\<open>std::min(a, b)\<close> is \<^verbatim>\<open>(b < a) ? b : a\<close>\<close>
  "std_min a b = (if b < a then b else a)"

definition std_max :: "real \<Rightarrow> real \<Rightarrow> real" where
  \<comment> \<open>\<^verbatim>\<open>std::max(a, b)\<close> is \<^verbatim>\<open>(a < b) ? b : a\<close>\<close>
  "std_max a b = (if a < b then b else a)"

definition u32_sub :: "nat \<Rightarrow> nat \<Rightarrow> nat" where
  \<comment> \<open>subtraction of two \<^verbatim>\<open>unsigned int\<close> values, both below \<open>2 ^ 32\<close>\<close>
  "u32_sub a b = (if b \<le> a then a - b else a + 2 ^ 32 - b)"

text \<open>A counted \<^verbatim>\<open>for\<close> loop whose body may fail: it stops at the first error.\<close>

fun for_each :: "('i \<Rightarrow> 's \<Rightarrow> error + 's) \<Rightarrow> 'i list \<Rightarrow> 's \<Rightarrow> error + 's" where
  "for_each body [] s = Inr s"
| "for_each body (i # is) s = bind_e (body i s) (for_each body is)"

subsection \<open>Declarations of the headers\<close>

text \<open>
  The enumerations \<^verbatim>\<open>MaterialState\<close>, \<^verbatim>\<open>Property\<close> and \<^verbatim>\<open>StateProperty\<close>, the
  constants \<^verbatim>\<open>g_n_material_states\<close>, \<^verbatim>\<open>g_n_thermal_state_properties\<close>,
  \<^verbatim>\<open>polynomial_order\<close>, \<^verbatim>\<open>table_size\<close> and \<^verbatim>\<open>Constant::stefan_boltzmann\<close> are
  declared in headers (\<^verbatim>\<open>types.hh\<close>, \<^verbatim>\<open>MaterialProperty.hh\<close>) that the source files
  at hand include but that are not among them. The code only uses the enumerators
  through \<^verbatim>\<open>static_cast<unsigned int>\<close>, so they enter the model as the fields of a
  record, a parameter of every function that uses them.
\<close>

record declarations =
  liquid :: nat
  powder :: nat
  solid :: nat
  g_n_material_states :: nat
  prop_solidus :: nat
  prop_liquidus :: nat
  latent_heat_prop :: nat
  radiation_temperature_infty_prop :: nat
  specific_heat_prop :: nat
  emissivity_prop :: nat
  radiation_heat_transfer_coef_prop :: nat
  g_n_thermal_state_properties :: nat
  polynomial_order :: nat
  table_size :: nat
  stefan_boltzmann :: real

text \<open>
  What C++ gives for any such declaration: the three material states are the
  enumerators below \<^verbatim>\<open>MaterialState::SIZE\<close>, and different enumerators of one
  enumeration have different values, the thermal ones below
  \<^verbatim>\<open>g_n_thermal_state_properties\<close>.
\<close>

definition declarations_ok :: "'a declarations_scheme \<Rightarrow> bool" where
  "declarations_ok D \<longleftrightarrow>
     g_n_material_states D = 3 \<and>
     liquid D < 3 \<and> powder D < 3 \<and> solid D < 3 \<and>
     liquid D \<noteq> powder D \<and> liquid D \<noteq> solid D \<and> powder D \<noteq> solid D \<and>
     specific_heat_prop D < g_n_thermal_state_properties D \<and>
     emissivity_prop D < g_n_thermal_state_properties D \<and>
     radiation_heat_transfer_coef_prop D < g_n_thermal_state_properties D \<and>
     specific_heat_prop D \<noteq> emissivity_prop D \<and>
     specific_heat_prop D \<noteq> radiation_heat_transfer_coef_prop D \<and>
     emissivity_prop D \<noteq> radiation_heat_transfer_coef_prop D"

subsection \<open>The table evaluator\<close>

text \<open>
  A \<^verbatim>\<open>MemoryBlockView<double>\<close> over the five-dimensional block of tables: the
  element access and the extent of the fourth dimension, which the evaluator reads.
\<close>

record table_view =
  at5 :: "nat \<Rightarrow> nat \<Rightarrow> nat \<Rightarrow> nat \<Rightarrow> nat \<Rightarrow> real"
  extent3 :: nat

text \<open>
  The scan \<^verbatim>\<open>for (; i < size; ++i) if (temperature < table(i, 0)) break;\<close>
  returns the value of \<open>i\<close> after the loop.
\<close>

function table_scan :: "(nat \<Rightarrow> real) \<Rightarrow> real \<Rightarrow> nat \<Rightarrow> nat \<Rightarrow> nat" where
  "table_scan bp temperature size_3 i =
     (if i < size_3 then
        (if temperature < bp i then i else table_scan bp temperature size_3 (i + 1))
      else i)"
  by pat_completeness auto
termination
  by (relation "measure (\<lambda>(bp, temperature, size_3, i). size_3 - i)") auto

declare table_scan.simps [simp del]

definition compute_property_from_table ::
  "table_view \<Rightarrow> nat \<Rightarrow> nat \<Rightarrow> nat \<Rightarrow> real \<Rightarrow> error + real" where
  "compute_property_from_table state_property_tables_view material_id material_state property
       temperature =
     (let tab = at5 state_property_tables_view material_id material_state property in
      if temperature \<le> tab 0 0 then Inr (tab 0 1)
      else
        let size_3 = extent3 state_property_tables_view;
            i = table_scan (\<lambda>i. tab i 0) temperature size_3 0
        in if i \<ge> u32_sub size_3 1 then Inr (tab (u32_sub size_3 1) 1)
           else
             let tempertature_i = tab i 0;
                 tempertature_im1 = tab (u32_sub i 1) 0;
                 property_i = tab i 1;
                 property_im1 = tab (u32_sub i 1) 1
             in bind_e (fdiv ((temperature - tempertature_im1) * (property_i - property_im1))
                             (tempertature_i - tempertature_im1))
                  (\<lambda>q. Inr (property_im1 + q)))"

subsection \<open>The members of \<^verbatim>\<open>MaterialProperty\<close>\<close>

text \<open>
  The members the update reads and writes. A two-dimensional
  \<^verbatim>\<open>MemoryBlockView<double>\<close> is a function of its two indices: \<open>properties\<close> is indexed
  by material id and property, \<open>state\<close> by material state and unit (the offset
  \<^verbatim>\<open>_dofs_map\<close> gives a cell), \<open>property_values\<close> by thermal property and unit,
  \<open>state_property_polynomials\<close> by material id, material state, property and degree.
\<close>

record material_property =
  use_table :: bool
  properties :: "nat \<Rightarrow> nat \<Rightarrow> real"
  state :: "nat \<Rightarrow> nat \<Rightarrow> real"
  property_values :: "nat \<Rightarrow> nat \<Rightarrow> real"
  state_property_tables :: table_view
  state_property_polynomials :: "nat \<Rightarrow> nat \<Rightarrow> nat \<Rightarrow> nat \<Rightarrow> real"

definition set2 :: "(nat \<Rightarrow> nat \<Rightarrow> real) \<Rightarrow> nat \<Rightarrow> nat \<Rightarrow> real \<Rightarrow> (nat \<Rightarrow> nat \<Rightarrow> real)" where
  \<comment> \<open>the assignment \<^verbatim>\<open>view(i, j) = x\<close>\<close>
  "set2 view i j x = view(i := (view i)(j := x))"

definition plus_assign :: "nat \<Rightarrow> nat \<Rightarrow> real \<Rightarrow> material_property \<Rightarrow> material_property" where
  \<comment> \<open>the statement \<^verbatim>\<open>property_values_view(property, dof) += x\<close>\<close>
  "plus_assign property dof x mp =
     mp\<lparr>property_values :=
          set2 (property_values mp) property dof (property_values mp property dof + x)\<rparr>"

text \<open>
  The members that neither \<^verbatim>\<open>update\<close> nor
  \<^verbatim>\<open>update_boundary_material_properties\<close> assigns, and the allocation of the tables:
  \<^verbatim>\<open>fill_properties\<close> gives the block of tables the extent \<^verbatim>\<open>table_size\<close>, a
  positive constant, when the format is the table format.
\<close>

definition immutable_members ::
  "material_property \<Rightarrow>
     bool \<times> (nat \<Rightarrow> nat \<Rightarrow> real) \<times> table_view \<times> (nat \<Rightarrow> nat \<Rightarrow> nat \<Rightarrow> nat \<Rightarrow> real)" where
  "immutable_members mp =
     (use_table mp, properties mp, state_property_tables mp, state_property_polynomials mp)"

definition tables_allocated :: "material_property \<Rightarrow> bool" where
  "tables_allocated mp \<longleftrightarrow> (use_table mp \<longrightarrow> 0 < extent3 (state_property_tables mp))"

subsection \<open>The update kernel\<close>

text \<open>Lines 300 to 309: the ratio of liquid from the temperature of the unit.\<close>

definition liquid_ratio_at :: "real \<Rightarrow> real \<Rightarrow> real \<Rightarrow> error + real" where
  "liquid_ratio_at temperature solidus liquidus =
     (if temperature < solidus then Inr 0
      else if temperature > liquidus then Inr 1
      else fdiv (temperature - solidus) (liquidus - solidus))"

text \<open>
  The accumulation of the property values, from the tables or from the polynomials.
  \<open>first_property\<close> is 0 in \<^verbatim>\<open>update\<close> and 3 in
  \<^verbatim>\<open>update_boundary_material_properties\<close>.
\<close>

definition accumulate_tables ::
  "'a declarations_scheme \<Rightarrow> nat \<Rightarrow> nat \<Rightarrow> nat \<Rightarrow> real \<Rightarrow> material_property
     \<Rightarrow> error + material_property" where
  "accumulate_tables D first_property material_id dof temperature =
     for_each (\<lambda>property.
       for_each (\<lambda>material_state mp.
         bind_e (compute_property_from_table (state_property_tables mp) material_id
                   material_state property temperature)
           (\<lambda>v. Inr (plus_assign property dof (state mp material_state dof * v) mp)))
         [0..<g_n_material_states D])
       [first_property..<g_n_thermal_state_properties D]"

definition accumulate_polynomials ::
  "'a declarations_scheme \<Rightarrow> nat \<Rightarrow> nat \<Rightarrow> nat \<Rightarrow> real \<Rightarrow> material_property
     \<Rightarrow> error + material_property" where
  "accumulate_polynomials D first_property material_id dof temperature =
     for_each (\<lambda>property.
       for_each (\<lambda>material_state.
         for_each (\<lambda>i mp.
           Inr (plus_assign property dof
                  (state mp material_state dof *
                   state_property_polynomials mp material_id material_state property i *
                   temperature ^ i) mp))
           [0..<polynomial_order D + 1])
         [0..<g_n_material_states D])
       [first_property..<g_n_thermal_state_properties D]"

definition accumulate ::
  "'a declarations_scheme \<Rightarrow> nat \<Rightarrow> nat \<Rightarrow> nat \<Rightarrow> real \<Rightarrow> material_property
     \<Rightarrow> error + material_property" where
  "accumulate D first_property material_id dof temperature mp =
     (if use_table mp then accumulate_tables D first_property material_id dof temperature mp
      else accumulate_polynomials D first_property material_id dof temperature mp)"

text \<open>Lines 359 to 375: the latent heat in the mushy state.\<close>

definition mushy ::
  "'a declarations_scheme \<Rightarrow> nat \<Rightarrow> nat \<Rightarrow> real \<Rightarrow> real \<Rightarrow> real \<Rightarrow> material_property
     \<Rightarrow> error + material_property" where
  "mushy D material_id dof liquid_ratio solidus liquidus mp =
     (if liquid_ratio > 0 \<and> liquid_ratio < 1 then
        for_each (\<lambda>material_state mp.
          bind_e (fdiv (state mp material_state dof * properties mp material_id (latent_heat_prop D))
                       (liquidus - solidus))
            (\<lambda>q. Inr (plus_assign (specific_heat_prop D) dof q mp)))
          [0..<g_n_material_states D] mp
      else Inr mp)"

text \<open>Lines 377 to 394: the radiation heat transfer coefficient.\<close>

definition radiation ::
  "'a declarations_scheme \<Rightarrow> nat \<Rightarrow> nat \<Rightarrow> real \<Rightarrow> material_property \<Rightarrow> material_property" where
  "radiation D material_id dof T mp =
     (let T_infty = properties mp material_id (radiation_temperature_infty_prop D);
          emissivity = property_values mp (emissivity_prop D) dof
      in mp\<lparr>property_values :=
              set2 (property_values mp) (radiation_heat_transfer_coef_prop D) dof
                (emissivity * stefan_boltzmann D * (T + T_infty) * (T * T + T_infty * T_infty))\<rparr>)"

text \<open>
  The body of the \<^verbatim>\<open>for_each\<close> of \<^verbatim>\<open>update\<close>, for the cell of material
  \<open>material_id\<close> stored at offset \<open>dof\<close>. \<open>temperature_average_local\<close> is the result of
  \<^verbatim>\<open>compute_average_temperature\<close>, a quadrature of the finite element library.
\<close>

definition update_kernel ::
  "'a declarations_scheme \<Rightarrow> (nat \<Rightarrow> real) \<Rightarrow> nat \<times> nat \<Rightarrow> material_property
     \<Rightarrow> error + material_property" where
  "update_kernel D temperature_average_local cell mp =
     (let material_id = fst cell;
          solidus = properties mp material_id (prop_solidus D);
          liquidus = properties mp material_id (prop_liquidus D);
          dof = snd cell
      in bind_e (liquid_ratio_at (temperature_average_local dof) solidus liquidus)
           (\<lambda>liquid_ratio.
              let powder_ratio = std_min (1 - liquid_ratio) (state mp (powder D) dof);
                  solid_ratio = std_max (1 - liquid_ratio - powder_ratio) 0;
                  mp1 = mp\<lparr>state :=
                          set2 (set2 (set2 (state mp) (liquid D) dof liquid_ratio)
                                  (powder D) dof powder_ratio)
                            (solid D) dof solid_ratio\<rparr>
              in bind_e (accumulate D 0 material_id dof (temperature_average_local dof) mp1)
                   (\<lambda>mp2. bind_e (mushy D material_id dof liquid_ratio solidus liquidus mp2)
                      (\<lambda>mp3. Inr (radiation D material_id dof
                                     (temperature_average_local dof) mp3)))))"

text \<open>
  \<^verbatim>\<open>update\<close>: the property values are set to zero, then the kernel runs on every
  locally owned active cell. \<open>cells\<close> lists these cells in the order of the iteration,
  each as its material id and its offset (the vectors \<^verbatim>\<open>material_ids\<close> and
  \<^verbatim>\<open>mp_dofs\<close>).
\<close>

definition update ::
  "'a declarations_scheme \<Rightarrow> (nat \<times> nat) list \<Rightarrow> (nat \<Rightarrow> real) \<Rightarrow> material_property
     \<Rightarrow> error + material_property" where
  "update D cells temperature_average mp =
     for_each (update_kernel D temperature_average) cells
       (mp\<lparr>property_values := \<lambda>property dof. 0\<rparr>)"

text \<open>
  \<^verbatim>\<open>update_boundary_material_properties\<close>: the same accumulation from property 3 on
  and the radiation coefficient, without the phase update.
\<close>

definition boundary_kernel ::
  "'a declarations_scheme \<Rightarrow> (nat \<Rightarrow> real) \<Rightarrow> nat \<times> nat \<Rightarrow> material_property
     \<Rightarrow> error + material_property" where
  "boundary_kernel D temperature_average cell mp =
     (let material_id = fst cell;
          dof = snd cell
      in bind_e (accumulate D 3 material_id dof (temperature_average dof) mp)
           (\<lambda>mp2. Inr (radiation D material_id dof (temperature_average dof) mp2)))"

definition update_boundary_material_properties ::
  "'a declarations_scheme \<Rightarrow> (nat \<times> nat) list \<Rightarrow> (nat \<Rightarrow> real) \<Rightarrow> material_property
     \<Rightarrow> error + material_property" where
  "update_boundary_material_properties D cells temperature_average mp =
     for_each (boundary_kernel D temperature_average) cells
       (mp\<lparr>property_values := \<lambda>property dof. 0\<rparr>)"

subsection \<open>The phase update with the special values of the machine\<close>

text \<open>
  The kernel has no error path. Where the model above reports a division by zero, the
  machine stores the quotient that IEEE arithmetic gives, a NaN or an infinity, and goes
  on; the next call of \<^verbatim>\<open>update\<close> reads it. To follow the code there, the part of the
  kernel that writes the three fractions (lines 300 to 321) is given once more, on
  doubles that are a finite value, an infinity or a NaN. The temperature, the solidus and
  the liquidus are finite; rounding is not modelled. A comparison with a NaN is false,
  and so \<^verbatim>\<open>std::min\<close> and \<^verbatim>\<open>std::max\<close> return their first argument when one of the two
  is a NaN.
\<close>

datatype double = Finite real | PInf | NInf | NaN

fun d_less :: "double \<Rightarrow> double \<Rightarrow> bool" where
  "d_less (Finite a) (Finite b) = (a < b)"
| "d_less (Finite a) PInf = True"
| "d_less NInf (Finite b) = True"
| "d_less NInf PInf = True"
| "d_less _ _ = False"

fun d_minus :: "double \<Rightarrow> double \<Rightarrow> double" where
  "d_minus (Finite a) (Finite b) = Finite (a - b)"
| "d_minus NaN _ = NaN"
| "d_minus _ NaN = NaN"
| "d_minus PInf PInf = NaN"
| "d_minus NInf NInf = NaN"
| "d_minus PInf _ = PInf"
| "d_minus NInf _ = NInf"
| "d_minus (Finite a) PInf = NInf"
| "d_minus (Finite a) NInf = PInf"

definition d_div :: "real \<Rightarrow> real \<Rightarrow> double" where
  \<comment> \<open>the quotient of two finite values; the zero divisor is the \<open>+0\<close> of \<open>x - x\<close>\<close>
  "d_div a b =
     (if b \<noteq> 0 then Finite (a / b)
      else if a = 0 then NaN else if 0 < a then PInf else NInf)"

definition d_min :: "double \<Rightarrow> double \<Rightarrow> double" where
  \<comment> \<open>\<^verbatim>\<open>std::min(a, b)\<close> is \<^verbatim>\<open>(b < a) ? b : a\<close>\<close>
  "d_min a b = (if d_less b a then b else a)"

definition d_max :: "double \<Rightarrow> double \<Rightarrow> double" where
  \<comment> \<open>\<^verbatim>\<open>std::max(a, b)\<close> is \<^verbatim>\<open>(a < b) ? b : a\<close>\<close>
  "d_max a b = (if d_less a b then b else a)"

text \<open>
  \<open>state_dof\<close> is the state of one unit, \<^verbatim>\<open>state_view(material_state, dof)\<close> as a
  function of the material state.
\<close>

definition update_kernel_state ::
  "'a declarations_scheme \<Rightarrow> real \<Rightarrow> real \<Rightarrow> real \<Rightarrow> (nat \<Rightarrow> double) \<Rightarrow> (nat \<Rightarrow> double)" where
  "update_kernel_state D temperature solidus liquidus state_dof =
     (let liquid_ratio =
            (if temperature < solidus then Finite 0
             else if temperature > liquidus then Finite 1
             else d_div (temperature - solidus) (liquidus - solidus));
          powder_ratio = d_min (d_minus (Finite 1) liquid_ratio) (state_dof (powder D));
          solid_ratio = d_max (d_minus (d_minus (Finite 1) liquid_ratio) powder_ratio) (Finite 0)
      in ((state_dof(liquid D := liquid_ratio))(powder D := powder_ratio))
           (solid D := solid_ratio))"

text \<open>
  The state of one unit after a sequence of calls of \<^verbatim>\<open>update\<close>, one temperature of
  the unit for each call.
\<close>

definition update_state_sequence ::
  "'a declarations_scheme \<Rightarrow> real \<Rightarrow> real \<Rightarrow> real list \<Rightarrow> (nat \<Rightarrow> double) \<Rightarrow> (nat \<Rightarrow> double)" where
  "update_state_sequence D solidus liquidus temperatures state_dof =
     fold (\<lambda>temperature st. update_kernel_state D temperature solidus liquidus st)
       temperatures state_dof"

subsection \<open>Closed forms used to state the results\<close>

text \<open>
  The table evaluator in the words of the specification (section 4.3): the left
  clamp, the first index \<open>i\<close> with \<open>T < breakpoint[i]\<close>, the right clamp when there is
  none or when it is the last index, the linear interpolation otherwise. It is compared
  with \<open>compute_property_from_table\<close> below.
\<close>

definition table_evaluator_spec :: "(nat \<Rightarrow> real) \<Rightarrow> (nat \<Rightarrow> real) \<Rightarrow> nat \<Rightarrow> real \<Rightarrow> real" where
  "table_evaluator_spec breakpoint val n T =
     (if T \<le> breakpoint 0 then val 0
      else case find (\<lambda>i. T < breakpoint i) [0..<n] of
             None \<Rightarrow> val (n - 1)
           | Some i \<Rightarrow>
               if i = n - 1 then val (n - 1)
               else val (i - 1) +
                    (T - breakpoint (i - 1)) * (val i - val (i - 1)) /
                    (breakpoint i - breakpoint (i - 1)))"

text \<open>
  A curve of \<open>n\<close> pairs is stored in the first \<open>n\<close> rows of its table;
  \<^verbatim>\<open>fill_properties\<close> fills the rows after them with the last pair. The breakpoints of
  the curve ascend strictly when those of the first \<open>n\<close> rows do.
\<close>

definition breakpoints_ascending :: "table_view \<Rightarrow> nat \<Rightarrow> nat \<Rightarrow> nat \<Rightarrow> nat \<Rightarrow> bool" where
  "breakpoints_ascending v material_id material_state property n \<longleftrightarrow>
     n \<le> extent3 v \<and>
     sorted_wrt (<) (map (\<lambda>i. at5 v material_id material_state property i 0) [0..<n])"

text \<open>
  The value of the curve of one material, state and property at a temperature, and the
  sum over the material states that the accumulation adds to a property value.
\<close>

definition curve_value ::
  "'a declarations_scheme \<Rightarrow> material_property \<Rightarrow> nat \<Rightarrow> nat \<Rightarrow> nat \<Rightarrow> real \<Rightarrow> real" where
  "curve_value D mp material_id material_state property T =
     (if use_table mp then
        table_evaluator_spec
          (\<lambda>i. at5 (state_property_tables mp) material_id material_state property i 0)
          (\<lambda>i. at5 (state_property_tables mp) material_id material_state property i 1)
          (extent3 (state_property_tables mp)) T
      else (\<Sum>i\<leftarrow>[0..<polynomial_order D + 1].
              state_property_polynomials mp material_id material_state property i * T ^ i))"

definition blended ::
  "'a declarations_scheme \<Rightarrow> material_property \<Rightarrow> nat \<Rightarrow> nat \<Rightarrow> nat \<Rightarrow> real \<Rightarrow> real" where
  "blended D mp material_id dof property T =
     (\<Sum>material_state\<leftarrow>[0..<g_n_material_states D].
        state mp material_state dof * curve_value D mp material_id material_state property T)"

subsection \<open>Reading a property of the database\<close>

text \<open>
  The body of the innermost loop of \<^verbatim>\<open>fill_properties\<close> (lines 836 to 929) for a
  thermal state property \<open>p\<close> that the database gives as the string \<open>property\<close>.
  \<^verbatim>\<open>std::stod\<close> is a parameter; it fails with \<^verbatim>\<open>std::invalid_argument\<close>.
  \<^verbatim>\<open>ASSERT_THROW\<close> throws when its condition is false. \<^verbatim>\<open>ASSERT\<close> checks in a debug
  build only; the model takes the check, as the error \<open>AssertionFailure\<close> (without it a
  pair of one field makes \<^verbatim>\<open>t_v[1]\<close> read past the end of the vector).
\<close>

definition isspace :: "char \<Rightarrow> bool" where
  "isspace x \<longleftrightarrow> x \<in> set [CHR 0x20, CHR 0x09, CHR 0x0A, CHR 0x0B, CHR 0x0C, CHR 0x0D]"

fun split :: "(char \<Rightarrow> bool) \<Rightarrow> string \<Rightarrow> string list" where
  \<comment> \<open>\<^verbatim>\<open>boost::split\<close> without token compression: one token more than separators\<close>
  "split is_sep [] = [[]]"
| "split is_sep (c # cs) =
     (if is_sep c then [] # split is_sep cs
      else case split is_sep cs of [] \<Rightarrow> [[c]] | t # ts \<Rightarrow> (c # t) # ts)"

definition set5 :: "table_view \<Rightarrow> nat \<Rightarrow> nat \<Rightarrow> nat \<Rightarrow> nat \<Rightarrow> nat \<Rightarrow> real \<Rightarrow> table_view" where
  "set5 v m s p i j x =
     v\<lparr>at5 := \<lambda>m' s' p' i' j'.
            if m' = m \<and> s' = s \<and> p' = p \<and> i' = i \<and> j' = j then x else at5 v m' s' p' i' j'\<rparr>"

definition set4 ::
  "(nat \<Rightarrow> nat \<Rightarrow> nat \<Rightarrow> nat \<Rightarrow> real) \<Rightarrow> nat \<Rightarrow> nat \<Rightarrow> nat \<Rightarrow> nat \<Rightarrow> real
     \<Rightarrow> (nat \<Rightarrow> nat \<Rightarrow> nat \<Rightarrow> nat \<Rightarrow> real)" where
  "set4 v m s p i x =
     (\<lambda>m' s' p' i'. if m' = m \<and> s' = s \<and> p' = p \<and> i' = i then x else v m' s' p' i')"

definition read_table ::
  "(string \<Rightarrow> error + real) \<Rightarrow> 'a declarations_scheme \<Rightarrow> nat \<Rightarrow> nat \<Rightarrow> nat \<Rightarrow> string \<Rightarrow> table_view
     \<Rightarrow> error + table_view" where
  "read_table stod D material_id state_3 p property_string view =
     (let parsed_property = split (\<lambda>c. c = CHR '';'') property_string;
          parsed_property_size = length parsed_property
      in if \<not> parsed_property_size \<le> table_size D
         then Inl (ConfigurationError ''Too many coefficients, increase the table size'')
         else
           bind_e
             (for_each (\<lambda>i v.
                 let t_v = split (\<lambda>c. c = CHR '','') (parsed_property ! i)
                 in if length t_v \<noteq> 2
                    then Inl (AssertionFailure ''Error reading material property.'')
                    else bind_e (stod (t_v ! 0)) (\<lambda>b.
                         bind_e (stod (t_v ! 1)) (\<lambda>x.
                           Inr (set5 (set5 v material_id state_3 p i 0 b)
                                  material_id state_3 p i 1 x))))
                [0..<parsed_property_size] view)
             (for_each (\<lambda>i v.
                 Inr (set5 (set5 v material_id state_3 p i 0
                              (at5 v material_id state_3 p (u32_sub i 1) 0))
                        material_id state_3 p i 1
                        (at5 v material_id state_3 p (u32_sub i 1) 1)))
                [parsed_property_size..<table_size D]))"

definition read_polynomial ::
  "(string \<Rightarrow> error + real) \<Rightarrow> 'a declarations_scheme \<Rightarrow> nat \<Rightarrow> nat \<Rightarrow> nat \<Rightarrow> string
     \<Rightarrow> (nat \<Rightarrow> nat \<Rightarrow> nat \<Rightarrow> nat \<Rightarrow> real) \<Rightarrow> error + (nat \<Rightarrow> nat \<Rightarrow> nat \<Rightarrow> nat \<Rightarrow> real)" where
  "read_polynomial stod D material_id state_3 p property_string view =
     (let parsed_property = split (\<lambda>c. c = CHR '','') property_string;
          parsed_property_size = length parsed_property
      in if \<not> parsed_property_size \<le> polynomial_order D
         then Inl (ConfigurationError ''Too many coefficients, increase the polynomial order'')
         else
           for_each (\<lambda>i v.
               bind_e (stod (parsed_property ! i)) (\<lambda>x.
                 Inr (set4 v material_id state_3 p i x)))
             [0..<parsed_property_size] view)"

definition read_state_property ::
  "(string \<Rightarrow> error + real) \<Rightarrow> 'a declarations_scheme \<Rightarrow> nat \<Rightarrow> nat \<Rightarrow> nat \<Rightarrow> string
     \<Rightarrow> material_property \<Rightarrow> error + material_property" where
  "read_state_property stod D material_id state_3 p property mp =
     (let property_string = filter (\<lambda>x. \<not> isspace x) property
      in if use_table mp
         then bind_e (read_table stod D material_id state_3 p property_string
                        (state_property_tables mp))
                (\<lambda>v. Inr (mp\<lparr>state_property_tables := v\<rparr>))
         else bind_e (read_polynomial stod D material_id state_3 p property_string
                        (state_property_polynomials mp))
                (\<lambda>v. Inr (mp\<lparr>state_property_polynomials := v\<rparr>)))"

text \<open>
  A reader of unsigned decimal integers, to run the model on the strings of the
  scenarios; \<^verbatim>\<open>std::stod\<close> reads more than these.
\<close>

definition digit_value :: "char \<Rightarrow> nat option" where
  "digit_value c =
     (let n = (of_char c :: nat) in if 48 \<le> n \<and> n \<le> 57 then Some (n - 48) else None)"

fun read_digits :: "nat \<Rightarrow> string \<Rightarrow> nat option" where
  "read_digits acc [] = Some acc"
| "read_digits acc (c # cs) =
     (case digit_value c of None \<Rightarrow> None | Some d \<Rightarrow> read_digits (10 * acc + d) cs)"

definition stod_digits :: "string \<Rightarrow> error + real" where
  "stod_digits s =
     (if s = [] then Inl (InvalidArgument ''stod'')
      else case read_digits 0 s of
             None \<Rightarrow> Inl (InvalidArgument ''stod'')
           | Some n \<Rightarrow> Inr (real n))"

subsection \<open>The activation of the mechanical cells\<close>

text \<open>
  A cell of the mechanical \<^verbatim>\<open>DoFHandler\<close>: whether it is locally owned, its offset in
  the material state (\<^verbatim>\<open>get_dof_index\<close>), the active index of the cell of the thermal
  \<^verbatim>\<open>DoFHandler\<close> at the same level and index, and its own active index.
  Index 0 is the element \<^verbatim>\<open>FE_Q\<close>, index 1 is \<^verbatim>\<open>FE_Nothing\<close>.
\<close>

record mechanical_cell =
  is_locally_owned :: bool
  mp_dof_index :: nat
  thermal_active_fe_index :: nat
  active_fe_index :: nat

definition get_state_ratio :: "material_property \<Rightarrow> mechanical_cell \<Rightarrow> nat \<Rightarrow> real" where
  "get_state_ratio mp cell material_state = state mp material_state (mp_dof_index cell)"

text \<open>The loop of the constructor \<^verbatim>\<open>MechanicalPhysics\<close> (lines 41 to 53).\<close>

definition MechanicalPhysics_constructor ::
  "'a declarations_scheme \<Rightarrow> material_property \<Rightarrow> mechanical_cell list \<Rightarrow> mechanical_cell list" where
  "MechanicalPhysics_constructor D mp cells =
     map (\<lambda>cell.
            if is_locally_owned cell then
              (if get_state_ratio mp cell (solid D) > 99 / 100
               then cell\<lparr>active_fe_index := 0\<rparr>
               else cell\<lparr>active_fe_index := 1\<rparr>)
            else cell) cells"

text \<open>The loop of \<^verbatim>\<open>setup_dofs\<close> with the thermal \<^verbatim>\<open>DoFHandler\<close> (lines 98 to 115).\<close>

definition setup_dofs ::
  "'a declarations_scheme \<Rightarrow> material_property \<Rightarrow> mechanical_cell list \<Rightarrow> mechanical_cell list" where
  "setup_dofs D mp cells =
     map (\<lambda>cell.
            if is_locally_owned cell then
              (if get_state_ratio mp cell (solid D) > 99 / 100
               then cell\<lparr>active_fe_index := thermal_active_fe_index cell\<rparr>
               else cell\<lparr>active_fe_index := 1\<rparr>)
            else cell) cells"

subsection \<open>Concrete inputs\<close>

text \<open>
  An instance of the declarations and a material, on which the model is run in the
  examples below. The theorems hold for every instance.
\<close>

definition example_declarations :: declarations where
  "example_declarations =
     \<lparr>liquid = 2, powder = 0, solid = 1, g_n_material_states = 3,
      prop_solidus = 1, prop_liquidus = 0, latent_heat_prop = 2,
      radiation_temperature_infty_prop = 3,
      specific_heat_prop = 1, emissivity_prop = 5, radiation_heat_transfer_coef_prop = 6,
      g_n_thermal_state_properties = 8, polynomial_order = 4, table_size = 4,
      stefan_boltzmann = 567 / 10 ^ 10\<rparr>"

definition example_properties :: "nat \<Rightarrow> nat \<Rightarrow> real" where
  \<comment> \<open>liquidus 1100, solidus 1000, latent heat 500, ambient temperature 300\<close>
  "example_properties material_id property =
     (if property = 0 then 1100 else if property = 1 then 1000
      else if property = 2 then 500 else 300)"

definition melting_point_properties :: "nat \<Rightarrow> nat \<Rightarrow> real" where
  \<comment> \<open>liquidus and solidus both 1000\<close>
  "melting_point_properties material_id property =
     (if property = 0 then 1000 else if property = 1 then 1000
      else if property = 2 then 500 else 300)"

definition example_state :: "nat \<Rightarrow> nat \<Rightarrow> real" where
  \<comment> \<open>every unit is powder\<close>
  "example_state material_state dof = (if material_state = 0 then 1 else 0)"

definition example_material :: material_property where
  "example_material =
     \<lparr>use_table = False, properties = example_properties, state = example_state,
      property_values = (\<lambda>property dof. 0),
      state_property_tables = \<lparr>at5 = (\<lambda>m s p i j. 0), extent3 = 4\<rparr>,
      state_property_polynomials = (\<lambda>m s p i. if i = 0 then 8 / 10 else 0)\<rparr>"

definition melting_point_material :: material_property where
  "melting_point_material = example_material\<lparr>properties := melting_point_properties\<rparr>"

definition solid_material :: material_property where
  \<comment> \<open>every unit is solid\<close>
  "solid_material =
     example_material\<lparr>state := (\<lambda>material_state dof. if material_state = 1 then 1 else 0)\<rparr>"

definition temperature_1000 :: "nat \<Rightarrow> real" where
  "temperature_1000 dof = 1000"

definition temperature_1050 :: "nat \<Rightarrow> real" where
  "temperature_1050 dof = 1050"

definition thermally_inactive_cell :: mechanical_cell where
  "thermally_inactive_cell =
     \<lparr>is_locally_owned = True, mp_dof_index = 0, thermal_active_fe_index = 1,
      active_fe_index = 1\<rparr>"

definition thermally_active_cell :: mechanical_cell where
  "thermally_active_cell =
     \<lparr>is_locally_owned = True, mp_dof_index = 0, thermal_active_fe_index = 0,
      active_fe_index = 1\<rparr>"

definition full_table :: table_view where
  \<comment> \<open>the table \<^verbatim>\<open>0,10;100,20;200,30\<close> stored with \<^verbatim>\<open>table_size\<close> 3\<close>
  "full_table =
     \<lparr>at5 = (\<lambda>m s p i j.
               if j = 0 then (if i = 0 then 0 else if i = 1 then 100 else 200)
               else (if i = 0 then 10 else if i = 1 then 20 else 30)),
      extent3 = 3\<rparr>"

definition padded_table :: table_view where
  \<comment> \<open>the table \<^verbatim>\<open>0,10;100,20;200,30\<close> stored with \<^verbatim>\<open>table_size\<close> 4: the last pair twice\<close>
  "padded_table = full_table\<lparr>extent3 := 4\<rparr>"

definition solid_unit :: "nat \<Rightarrow> double" where
  \<comment> \<open>the state of a unit that is solid\<close>
  "solid_unit material_state = (if material_state = 1 then Finite 1 else Finite 0)"

section \<open>Basic facts\<close>

lemma bind_e_Inr [simp]: "bind_e (Inr x) f = f x"
  by (simp add: bind_e_def)

lemma bind_e_Inl [simp]: "bind_e (Inl e) f = Inl e"
  by (simp add: bind_e_def)

lemma bind_e_eq_Inr: "bind_e m f = Inr y \<longleftrightarrow> (\<exists>x. m = Inr x \<and> f x = Inr y)"
  by (cases m) simp_all

lemma u32_sub_le [simp]: "b \<le> a \<Longrightarrow> u32_sub a b = a - b"
  by (simp add: u32_sub_def)

lemma table_scan_find:
  "i \<le> n \<Longrightarrow> table_scan bp T n i =
     (case find (\<lambda>j. T < bp j) [i..<n] of None \<Rightarrow> n | Some j \<Rightarrow> j)"
proof (induction bp T n i rule: table_scan.induct)
  case (1 bp T n i)
  show ?case
  proof (cases "i < n")
    case True
    then have "[i..<n] = i # [i + 1..<n]" by (simp add: upt_conv_Cons)
    with True 1 show ?thesis
      by (subst table_scan.simps) simp
  next
    case False
    with 1 show ?thesis by (subst table_scan.simps) simp
  qed
qed

lemma table_scan_bounds: "i \<le> n \<Longrightarrow> i \<le> table_scan bp T n i \<and> table_scan bp T n i \<le> n"
proof (induction bp T n i rule: table_scan.induct)
  case (1 bp T n i)
  then show ?case by (subst (1 2) table_scan.simps) auto
qed

lemma table_scan_before:
  "i \<le> j \<Longrightarrow> j < table_scan bp T n i \<Longrightarrow> \<not> T < bp j"
proof (induction bp T n i rule: table_scan.induct)
  case (1 bp T n i)
  show ?case
  proof (cases "i < n \<and> \<not> T < bp i")
    case True
    then have eq: "table_scan bp T n i = table_scan bp T n (i + 1)"
      by (subst table_scan.simps) simp
    show ?thesis
    proof (cases "j = i")
      case True
      with \<open>i < n \<and> \<not> T < bp i\<close> show ?thesis by simp
    next
      case False
      with 1 True eq show ?thesis by simp
    qed
  next
    case False
    then have "table_scan bp T n i = i" by (subst table_scan.simps) auto
    with 1 show ?thesis by simp
  qed
qed

lemma table_scan_at:
  "table_scan bp T n i < n \<Longrightarrow> T < bp (table_scan bp T n i)"
proof (induction bp T n i rule: table_scan.induct)
  case (1 bp T n i)
  show ?case
  proof (cases "i < n")
    case True
    show ?thesis
    proof (cases "T < bp i")
      case True
      with \<open>i < n\<close> have "table_scan bp T n i = i" by (subst table_scan.simps) simp
      with True show ?thesis by simp
    next
      case False
      with True have eq: "table_scan bp T n i = table_scan bp T n (i + 1)"
        by (subst table_scan.simps) simp
      with 1 True False show ?thesis by simp
    qed
  next
    case False
    then have "table_scan bp T n i = i" by (subst table_scan.simps) simp
    with 1 False show ?thesis by simp
  qed
qed

text \<open>The scan characterised: the first index whose breakpoint exceeds the temperature.\<close>

lemma table_scan_first:
  assumes "r \<le> n" and "\<forall>j<r. \<not> T < bp j" and "r < n \<longrightarrow> T < bp r"
  shows "table_scan bp T n 0 = r"
proof -
  let ?s = "table_scan bp T n 0"
  have b: "?s \<le> n" using table_scan_bounds [of 0 n bp T] by simp
  have "\<not> ?s < r"
  proof
    assume "?s < r"
    with assms(1) have "?s < n" by simp
    then have "T < bp ?s" by (rule table_scan_at)
    with assms(2) \<open>?s < r\<close> show False by blast
  qed
  moreover have "\<not> r < ?s"
  proof
    assume "r < ?s"
    then have "\<not> T < bp r" using table_scan_before [of 0 r bp T n] by simp
    moreover from \<open>r < ?s\<close> b have "r < n" by simp
    ultimately show False using assms(3) by simp
  qed
  ultimately show ?thesis by simp
qed

text \<open>In the branch that interpolates the index is at least 1 and the divisor positive.\<close>

lemma table_scan_interior:
  assumes "\<not> T \<le> bp 0" and "table_scan bp T n 0 < n"
  shows "0 < table_scan bp T n 0"
    and "bp (table_scan bp T n 0 - 1) \<le> T"
    and "T < bp (table_scan bp T n 0)"
proof -
  let ?s = "table_scan bp T n 0"
  show lt: "T < bp ?s" using assms(2) by (rule table_scan_at)
  show pos: "0 < ?s"
  proof (rule ccontr)
    assume "\<not> 0 < ?s"
    then have "?s = 0" by simp
    with lt assms(1) show False by simp
  qed
  have "\<not> T < bp (?s - 1)"
    using table_scan_before [of 0 "?s - 1" bp T n] pos by simp
  then show "bp (?s - 1) \<le> T" by simp
qed

lemma compute_property_from_table_refines:
  assumes "0 < extent3 v"
  shows "compute_property_from_table v m s p T =
           Inr (table_evaluator_spec (\<lambda>i. at5 v m s p i 0) (\<lambda>i. at5 v m s p i 1) (extent3 v) T)"
proof (cases "T \<le> at5 v m s p 0 0")
  case True
  then show ?thesis
    by (simp add: compute_property_from_table_def table_evaluator_spec_def)
next
  case False
  let ?bp = "\<lambda>i. at5 v m s p i 0"
  let ?n = "extent3 v"
  let ?i = "table_scan ?bp T ?n 0"
  have scan: "?i = (case find (\<lambda>j. T < ?bp j) [0..<?n] of None \<Rightarrow> ?n | Some j \<Rightarrow> j)"
    by (rule table_scan_find) simp
  have n1: "u32_sub ?n 1 = ?n - 1" using assms by simp
  show ?thesis
  proof (cases "?i \<ge> ?n - 1")
    case True
    have "table_evaluator_spec ?bp (\<lambda>i. at5 v m s p i 1) ?n T = at5 v m s p (?n - 1) 1"
    proof (cases "find (\<lambda>j. T < ?bp j) [0..<?n]")
      case None
      with False show ?thesis by (simp add: table_evaluator_spec_def)
    next
      case (Some j)
      with scan have "?i = j" by simp
      moreover have "j < ?n" using Some by (auto simp: find_Some_iff)
      ultimately have "j = ?n - 1" using True by simp
      with Some False show ?thesis by (simp add: table_evaluator_spec_def)
    qed
    with True False n1 show ?thesis
      by (simp add: compute_property_from_table_def Let_def)
  next
    case small: False
    then have lt: "?i < ?n" by simp
    from table_scan_interior [of T ?bp ?n, OF False lt]
    have pos: "0 < ?i" and lo: "?bp (?i - 1) \<le> T" and hi: "T < ?bp ?i" by simp_all
    have i1: "u32_sub ?i 1 = ?i - 1" using pos by simp
    have nz: "?bp ?i - ?bp (?i - 1) \<noteq> 0" using lo hi by simp
    obtain j where j: "find (\<lambda>j. T < ?bp j) [0..<?n] = Some j" and ji: "?i = j"
      using scan lt by (cases "find (\<lambda>j. T < ?bp j) [0..<?n]") simp_all
    have "j \<noteq> ?n - 1" using small ji by simp
    with j False have
      "table_evaluator_spec ?bp (\<lambda>i. at5 v m s p i 1) ?n T =
         at5 v m s p (j - 1) 1 +
         (T - ?bp (j - 1)) * (at5 v m s p j 1 - at5 v m s p (j - 1) 1) / (?bp j - ?bp (j - 1))"
      by (simp add: table_evaluator_spec_def)
    moreover have
      "compute_property_from_table v m s p T =
         Inr (at5 v m s p (?i - 1) 1 +
              (T - ?bp (?i - 1)) * (at5 v m s p ?i 1 - at5 v m s p (?i - 1) 1) /
              (?bp ?i - ?bp (?i - 1)))"
      using False small n1 i1 nz
      by (simp add: compute_property_from_table_def Let_def fdiv_def)
    ultimately show ?thesis using ji by simp
  qed
qed

subsection \<open>Tables: breakpoints and the scenario of the specification\<close>

lemma scenario_rows:
  assumes "3 \<le> extent3 v"
    and "at5 v m s p 0 0 = 0" "at5 v m s p 0 1 = 10"
    and "at5 v m s p 1 0 = 100" "at5 v m s p 1 1 = 20"
    and "at5 v m s p 2 0 = 200" "at5 v m s p 2 1 = 20"
  shows "compute_property_from_table v m s p 150 = Inr 20"
    and "compute_property_from_table v m s p 50 = Inr 15"
proof -
  let ?bp = "\<lambda>i. at5 v m s p i 0"
  have n1: "u32_sub (extent3 v) 1 = extent3 v - 1" using assms(1) by simp
  have "\<forall>j<2. \<not> 150 < ?bp j"
    using assms by (auto simp: less_Suc_eq numeral_2_eq_2)
  then have s150: "table_scan ?bp 150 (extent3 v) 0 = 2"
    using assms by (intro table_scan_first) simp_all
  have "\<forall>j<1. \<not> 50 < ?bp j" using assms by simp
  then have s50: "table_scan ?bp 50 (extent3 v) 0 = 1"
    using assms by (intro table_scan_first) simp_all
  show "compute_property_from_table v m s p 150 = Inr 20"
  proof (cases "extent3 v = 3")
    case True
    with assms s150 n1 show ?thesis
      by (simp add: compute_property_from_table_def Let_def fdiv_def)
  next
    case False
    with assms(1) have "\<not> extent3 v - 1 \<le> 2" by simp
    with assms s150 n1 show ?thesis
      by (simp add: compute_property_from_table_def Let_def fdiv_def)
  qed
  have "\<not> extent3 v - 1 \<le> 1" using assms(1) by simp
  with assms s50 n1 show "compute_property_from_table v m s p 50 = Inr 15"
    by (simp add: compute_property_from_table_def Let_def fdiv_def)
qed

subsection \<open>Reading strings\<close>

lemma stod_digits_examples:
  "stod_digits ''0'' = Inr 0" "stod_digits ''10'' = Inr 10" "stod_digits ''100'' = Inr 100"
  "stod_digits ''20'' = Inr 20" "stod_digits ''200'' = Inr 200"
  by (simp_all add: stod_digits_def digit_value_def)

text \<open>\<^verbatim>\<open>boost::split\<close> returns one token more than there are separators.\<close>

lemma length_split: "length (split P s) = Suc (length (filter P s))"
  by (induction s) (auto split: list.splits)

lemma at5_set5 [simp]:
  "at5 (set5 v m s p i j x) m' s' p' i' j' =
     (if m' = m \<and> s' = s \<and> p' = p \<and> i' = i \<and> j' = j then x else at5 v m' s' p' i' j')"
  by (simp add: set5_def)

lemma extent3_set5 [simp]: "extent3 (set5 v m s p i j x) = extent3 v"
  by (simp add: set5_def)

lemma pad_rows:
  "\<exists>v'. for_each (\<lambda>i v.
            Inr (set5 (set5 v m s p i 0 (at5 v m s p (u32_sub i 1) 0)) m s p i 1
                   (at5 v m s p (u32_sub i 1) 1))) [a..<b] v = Inr v' \<and>
        extent3 v' = extent3 v \<and> (\<forall>i<a. \<forall>j. at5 v' m s p i j = at5 v m s p i j)"
proof (induction "b - a" arbitrary: a v)
  case 0
  then show ?case by simp
next
  case (Suc n)
  then have ab: "a < b" and n: "n = b - Suc a" by simp_all
  let ?w = "set5 (set5 v m s p a 0 (at5 v m s p (u32_sub a 1) 0)) m s p a 1
              (at5 v m s p (u32_sub a 1) 1)"
  from Suc.hyps(1) [OF n, of ?w] obtain v' where
    v': "for_each (\<lambda>i v.
            Inr (set5 (set5 v m s p i 0 (at5 v m s p (u32_sub i 1) 0)) m s p i 1
                   (at5 v m s p (u32_sub i 1) 1))) [Suc a..<b] ?w = Inr v'"
      "extent3 v' = extent3 ?w" "\<forall>i<Suc a. \<forall>j. at5 v' m s p i j = at5 ?w m s p i j"
    by blast
  have "[a..<b] = a # [Suc a..<b]" using ab by (simp add: upt_conv_Cons)
  with v' show ?case by auto
qed

lemma read_table_scenario:
  assumes "3 \<le> table_size D"
    and "stod ''0'' = Inr 0" "stod ''10'' = Inr 10" "stod ''100'' = Inr 100"
        "stod ''20'' = Inr 20" "stod ''200'' = Inr 200"
  shows "\<exists>v'. read_table stod D m s p ''0,10;100,20;200,20'' v = Inr v' \<and>
           extent3 v' = extent3 v \<and>
           at5 v' m s p 0 0 = 0 \<and> at5 v' m s p 0 1 = 10 \<and>
           at5 v' m s p 1 0 = 100 \<and> at5 v' m s p 1 1 = 20 \<and>
           at5 v' m s p 2 0 = 200 \<and> at5 v' m s p 2 1 = 20"
proof -
  let ?w = "set5 (set5 (set5 (set5 (set5 (set5 v m s p 0 0 0) m s p 0 1 10)
              m s p 1 0 100) m s p 1 1 20) m s p 2 0 200) m s p 2 1 20"
  from pad_rows [of m s p 3 "table_size D" ?w] obtain v' where
    v': "for_each (\<lambda>i v.
            Inr (set5 (set5 v m s p i 0 (at5 v m s p (u32_sub i 1) 0)) m s p i 1
                   (at5 v m s p (u32_sub i 1) 1))) [3..<table_size D] ?w = Inr v'"
      "extent3 v' = extent3 ?w" "\<forall>i<3. \<forall>j. at5 v' m s p i j = at5 ?w m s p i j"
    by blast
  have "read_table stod D m s p ''0,10;100,20;200,20'' v = Inr v'"
    using assms v'(1) by (simp add: read_table_def numeral_2_eq_2 numeral_3_eq_3)
  with v'(2,3) show ?thesis by simp
qed

section \<open>The update kernel\<close>

lemma set2_apply [simp]:
  "set2 v i j x i' j' = (if i' = i \<and> j' = j then x else v i' j')"
  by (simp add: set2_def)

lemma plus_assign_simps [simp]:
  "use_table (plus_assign p d x mp) = use_table mp"
  "properties (plus_assign p d x mp) = properties mp"
  "state (plus_assign p d x mp) = state mp"
  "state_property_tables (plus_assign p d x mp) = state_property_tables mp"
  "state_property_polynomials (plus_assign p d x mp) = state_property_polynomials mp"
  "property_values (plus_assign p d x mp) p' d' =
     (if p' = p \<and> d' = d then property_values mp p d + x else property_values mp p' d')"
  by (simp_all add: plus_assign_def)

lemma plus_assign_twice:
  "plus_assign p d y (plus_assign p d x mp) = plus_assign p d (x + y) mp"
  by (simp add: plus_assign_def set2_def fun_eq_iff)

lemma plus_assign_zero: "plus_assign p d 0 mp = mp"
  by (simp add: plus_assign_def set2_def fun_eq_iff)

lemma curve_value_plus_assign [simp]:
  "curve_value D (plus_assign p d x mp) = curve_value D mp"
  by (simp add: curve_value_def fun_eq_iff)

lemma blended_plus_assign [simp]:
  "blended D (plus_assign p d x mp) = blended D mp"
  by (simp add: blended_def fun_eq_iff)

text \<open>A loop whose steps all respect a reflexive and transitive relation respects it.\<close>

lemma for_each_relation:
  assumes "for_each body xs s = Inr s'"
    and "\<And>i a b. body i a = Inr b \<Longrightarrow> R a b"
    and "\<And>a. R a a" and "\<And>a b c. R a b \<Longrightarrow> R b c \<Longrightarrow> R a c"
  shows "R s s'"
  using assms(1)
proof (induction xs arbitrary: s)
  case Nil
  then show ?case using assms(3) by simp
next
  case (Cons x xs)
  then obtain t where "body x s = Inr t" "for_each body xs t = Inr s'"
    by (auto simp: bind_e_eq_Inr)
  with Cons.IH assms(2,4) show ?case by blast
qed

text \<open>The inner loops of the accumulation.\<close>

lemma table_states_loop:
  assumes "0 < extent3 (state_property_tables mp)" and "use_table mp"
  shows "for_each (\<lambda>material_state mp.
           bind_e (compute_property_from_table (state_property_tables mp) material_id
                     material_state property T)
             (\<lambda>v. Inr (plus_assign property dof (state mp material_state dof * v) mp)))
           xs mp =
         Inr (plus_assign property dof
                (\<Sum>material_state\<leftarrow>xs. state mp material_state dof *
                     curve_value D mp material_id material_state property T) mp)"
  using assms
proof (induction xs arbitrary: mp)
  case Nil
  then show ?case by (simp add: plus_assign_zero)
next
  case (Cons x xs)
  let ?mp = "plus_assign property dof
     (state mp x dof * curve_value D mp material_id x property T) mp"
  have "compute_property_from_table (state_property_tables mp) material_id x property T =
          Inr (curve_value D mp material_id x property T)"
    using Cons.prems by (simp add: compute_property_from_table_refines curve_value_def)
  moreover have "0 < extent3 (state_property_tables ?mp)" "use_table ?mp"
    using Cons.prems by simp_all
  note Cons.IH [OF this]
  ultimately show ?case by (simp add: plus_assign_twice)
qed

lemma polynomial_degrees_loop:
  "for_each (\<lambda>i mp.
       Inr (plus_assign property dof
              (state mp material_state dof *
               state_property_polynomials mp material_id material_state property i * T ^ i) mp))
     xs mp =
   Inr (plus_assign property dof
          (\<Sum>i\<leftarrow>xs. state mp material_state dof *
               state_property_polynomials mp material_id material_state property i * T ^ i) mp)"
proof (induction xs arbitrary: mp)
  case Nil
  then show ?case by (simp add: plus_assign_zero)
next
  case (Cons x xs)
  show ?case by (simp add: Cons.IH plus_assign_twice)
qed

lemma polynomial_states_loop:
  assumes "\<not> use_table mp"
  shows "for_each (\<lambda>material_state.
           for_each (\<lambda>i mp.
             Inr (plus_assign property dof
                    (state mp material_state dof *
                     state_property_polynomials mp material_id material_state property i *
                     T ^ i) mp))
             [0..<polynomial_order D + 1])
           xs mp =
         Inr (plus_assign property dof
                (\<Sum>material_state\<leftarrow>xs. state mp material_state dof *
                     curve_value D mp material_id material_state property T) mp)"
  using assms
proof (induction xs arbitrary: mp)
  case Nil
  then show ?case by (simp add: plus_assign_zero)
next
  case (Cons x xs)
  let ?mp = "plus_assign property dof
     (state mp x dof * curve_value D mp material_id x property T) mp"
  have "(\<Sum>i\<leftarrow>[0..<polynomial_order D + 1].
           state mp x dof * state_property_polynomials mp material_id x property i * T ^ i) =
        state mp x dof * curve_value D mp material_id x property T"
    using Cons.prems by (simp add: curve_value_def sum_list_const_mult mult.assoc del: upt_Suc)
  moreover have "\<not> use_table ?mp" using Cons.prems by simp
  note Cons.IH [OF this]
  ultimately show ?case
    by (simp add: polynomial_degrees_loop plus_assign_twice del: upt_Suc)
qed

text \<open>The loop over the properties adds the blended value to each of them.\<close>

lemma plus_assign_property_values:
  "(plus_assign p d x mp)\<lparr>property_values := F\<rparr> = mp\<lparr>property_values := F\<rparr>"
  by (simp add: plus_assign_def)

lemma properties_loop:
  assumes "distinct ps" and "I mp"
    and step: "\<And>p mp'. I mp' \<Longrightarrow>
       body p mp' = Inr (plus_assign p dof (blended D mp' material_id dof p T) mp')"
    and keep: "\<And>p x mp'. I mp' \<Longrightarrow> I (plus_assign p dof x mp')"
  shows "for_each body ps mp =
         Inr (mp\<lparr>property_values := \<lambda>p d.
                 if d = dof \<and> p \<in> set ps
                 then property_values mp p d + blended D mp material_id dof p T
                 else property_values mp p d\<rparr>)"
  using assms(1,2)
proof (induction ps arbitrary: mp)
  case Nil
  then show ?case by simp
next
  case (Cons x xs)
  let ?mp = "plus_assign x dof (blended D mp material_id dof x T) mp"
  have d: "distinct xs" and x: "x \<notin> set xs" using Cons.prems by simp_all
  have "I ?mp" using Cons.prems keep by simp
  note IH = Cons.IH [OF d this]
  have "(\<lambda>p d. if d = dof \<and> p \<in> set xs
                then property_values ?mp p d + blended D ?mp material_id dof p T
                else property_values ?mp p d) =
        (\<lambda>p d. if d = dof \<and> p \<in> set (x # xs)
                then property_values mp p d + blended D mp material_id dof p T
                else property_values mp p d)"
    using x by (auto simp: fun_eq_iff)
  with IH step [OF Cons.prems(2)] show ?case
    by (simp add: plus_assign_property_values)
qed

lemma accumulate_result:
  assumes "tables_allocated mp"
  shows "accumulate D first_property material_id dof T mp =
         Inr (mp\<lparr>property_values := \<lambda>p d.
                 if d = dof \<and> first_property \<le> p \<and> p < g_n_thermal_state_properties D
                 then property_values mp p d + blended D mp material_id dof p T
                 else property_values mp p d\<rparr>)"
proof (cases "use_table mp")
  case True
  have "accumulate_tables D first_property material_id dof T mp =
        Inr (mp\<lparr>property_values := \<lambda>p d.
                 if d = dof \<and> p \<in> set [first_property..<g_n_thermal_state_properties D]
                 then property_values mp p d + blended D mp material_id dof p T
                 else property_values mp p d\<rparr>)"
    unfolding accumulate_tables_def
  proof (rule properties_loop
      [where I = "\<lambda>mp. use_table mp \<and> 0 < extent3 (state_property_tables mp)"])
    show "use_table mp \<and> 0 < extent3 (state_property_tables mp)"
      using True assms by (simp add: tables_allocated_def)
  qed (simp_all add: table_states_loop [where D = D] blended_def)
  with True show ?thesis by (simp add: accumulate_def)
next
  case False
  have "accumulate_polynomials D first_property material_id dof T mp =
        Inr (mp\<lparr>property_values := \<lambda>p d.
                 if d = dof \<and> p \<in> set [first_property..<g_n_thermal_state_properties D]
                 then property_values mp p d + blended D mp material_id dof p T
                 else property_values mp p d\<rparr>)"
    unfolding accumulate_polynomials_def
  proof (rule properties_loop [where I = "\<lambda>mp. \<not> use_table mp"])
    show "\<not> use_table mp" by (rule False)
    show "distinct [first_property..<g_n_thermal_state_properties D]" by simp
    show "\<And>p x mp'. \<not> use_table mp' \<Longrightarrow> \<not> use_table (plus_assign p dof x mp')" by simp
  qed (unfold blended_def, rule polynomial_states_loop)
  with False show ?thesis by (simp add: accumulate_def)
qed

lemma liquid_ratio_at_Inr:
  "liquid_ratio_at T Ts Tl = Inr l \<longleftrightarrow>
     (T < Ts \<and> l = 0) \<or> (\<not> T < Ts \<and> Tl < T \<and> l = 1) \<or>
     (Ts \<le> T \<and> T \<le> Tl \<and> Tl \<noteq> Ts \<and> l = (T - Ts) / (Tl - Ts))"
  by (auto simp: liquid_ratio_at_def fdiv_def)


lemma liquid_ratio_at_mushy:
  "liquid_ratio_at T Ts Tl = Inr l \<Longrightarrow> 0 < l \<Longrightarrow> l < 1 \<Longrightarrow> Tl \<noteq> Ts"
  by (auto simp: liquid_ratio_at_Inr)

lemma mushy_loop:
  "for_each (\<lambda>material_state mp.
      Inr (plus_assign sh dof
             (state mp material_state dof * properties mp material_id lh / (Tl - Ts)) mp)) xs mp =
   Inr (plus_assign sh dof
          (\<Sum>material_state\<leftarrow>xs.
             state mp material_state dof * properties mp material_id lh / (Tl - Ts)) mp)"
proof (induction xs arbitrary: mp)
  case Nil
  then show ?case by (simp add: plus_assign_zero)
next
  case (Cons x xs)
  show ?case by (simp add: Cons.IH plus_assign_twice)
qed

lemma mushy_result:
  assumes "0 < l \<and> l < 1 \<longrightarrow> Tl \<noteq> Ts"
  shows "mushy D material_id dof l Ts Tl mp =
         Inr (if 0 < l \<and> l < 1
              then plus_assign (specific_heat_prop D) dof
                     (\<Sum>material_state\<leftarrow>[0..<g_n_material_states D].
                        state mp material_state dof *
                        properties mp material_id (latent_heat_prop D) / (Tl - Ts)) mp
              else mp)"
proof (cases "0 < l \<and> l < 1")
  case True
  with assms have "Tl \<noteq> Ts" by simp
  moreover from True have "(0 < l \<and> l < 1) = True" by simp
  ultimately show ?thesis by (simp add: mushy_def fdiv_def mushy_loop)
next
  case False
  then have c: "(0 < l \<and> l < 1) = False" by simp
  show ?thesis by (simp only: mushy_def c if_False)
qed

lemma blended_cong:
  assumes "immutable_members a = immutable_members b"
    and "\<And>s. state a s dof = state b s dof"
  shows "blended D a material_id dof p T = blended D b material_id dof p T"
proof -
  from assms(1) have "use_table a = use_table b"
    "state_property_tables a = state_property_tables b"
    "state_property_polynomials a = state_property_polynomials b"
    by (simp_all add: immutable_members_def)
  then have "curve_value D a = curve_value D b"
    by (simp add: curve_value_def fun_eq_iff)
  with assms(2) show ?thesis by (simp add: blended_def)
qed

text \<open>What one run of the kernel leaves in the unit it works on and in the others.\<close>

lemma update_kernel_facts:
  fixes D mp material_id dof temperature_average
  defines "T \<equiv> temperature_average dof"
    and "Ts \<equiv> properties mp material_id (prop_solidus D)"
    and "Tl \<equiv> properties mp material_id (prop_liquidus D)"
    and "T_infty \<equiv> properties mp material_id (radiation_temperature_infty_prop D)"
  assumes alloc: "tables_allocated mp"
    and run: "update_kernel D temperature_average (material_id, dof) mp = Inr mp'"
  shows "\<exists>l V. liquid_ratio_at T Ts Tl = Inr l \<and>
           state mp' =
             set2 (set2 (set2 (state mp) (liquid D) dof l) (powder D) dof
                     (std_min (1 - l) (state mp (powder D) dof)))
               (solid D) dof
               (std_max (1 - l - std_min (1 - l) (state mp (powder D) dof)) 0) \<and>
           immutable_members mp' = immutable_members mp \<and>
           (\<forall>p d. d \<noteq> dof \<longrightarrow> property_values mp' p d = property_values mp p d) \<and>
           V = (\<lambda>p. (if p < g_n_thermal_state_properties D
                      then property_values mp p dof + blended D mp' material_id dof p T
                      else property_values mp p dof) +
                     (if p = specific_heat_prop D \<and> 0 < l \<and> l < 1
                      then (\<Sum>material_state\<leftarrow>[0..<g_n_material_states D].
                              state mp' material_state dof *
                              properties mp material_id (latent_heat_prop D) / (Tl - Ts))
                      else 0)) \<and>
           (\<forall>p. p \<noteq> radiation_heat_transfer_coef_prop D \<longrightarrow> property_values mp' p dof = V p) \<and>
           property_values mp' (radiation_heat_transfer_coef_prop D) dof =
             V (emissivity_prop D) * stefan_boltzmann D * (T + T_infty) *
             (T * T + T_infty * T_infty)"
proof -
  from run obtain l where l: "liquid_ratio_at T Ts Tl = Inr l"
    by (auto simp: update_kernel_def Let_def bind_e_eq_Inr T_def Ts_def Tl_def)
  define S1 where "S1 = set2 (set2 (set2 (state mp) (liquid D) dof l) (powder D) dof
                     (std_min (1 - l) (state mp (powder D) dof)))
               (solid D) dof
               (std_max (1 - l - std_min (1 - l) (state mp (powder D) dof)) 0)"
  define mp1 where "mp1 = mp\<lparr>state := S1\<rparr>"
  define mp2 where "mp2 = mp1\<lparr>property_values := \<lambda>p d.
                 if d = dof \<and> 0 \<le> p \<and> p < g_n_thermal_state_properties D
                 then property_values mp1 p d + blended D mp1 material_id dof p T
                 else property_values mp1 p d\<rparr>"
  define M where "M = (\<Sum>material_state\<leftarrow>[0..<g_n_material_states D].
                        state mp2 material_state dof *
                        properties mp2 material_id (latent_heat_prop D) / (Tl - Ts))"
  define mp3 where "mp3 = (if 0 < l \<and> l < 1 then plus_assign (specific_heat_prop D) dof M mp2
                           else mp2)"
  have "tables_allocated mp1" using alloc by (simp add: tables_allocated_def mp1_def)
  then have acc: "accumulate D 0 material_id dof T mp1 = Inr mp2"
    unfolding mp2_def by (rule accumulate_result)
  have "0 < l \<and> l < 1 \<longrightarrow> Tl \<noteq> Ts" using l liquid_ratio_at_mushy by blast
  then have mu: "mushy D material_id dof l Ts Tl mp2 = Inr mp3"
    unfolding mp3_def M_def by (rule mushy_result)
  have res: "mp' = radiation D material_id dof T mp3"
    using run l acc mu
    by (simp add: update_kernel_def Let_def T_def Ts_def Tl_def S1_def mp1_def)
  have st: "state mp' = S1"
    by (simp add: res radiation_def Let_def mp3_def mp2_def mp1_def)
  have im: "immutable_members mp' = immutable_members mp"
    by (simp add: res radiation_def Let_def mp3_def mp2_def mp1_def immutable_members_def)
  have im1: "immutable_members mp' = immutable_members mp1"
    by (simp add: im) (simp add: mp1_def immutable_members_def)
  have bl: "blended D mp1 material_id dof p T = blended D mp' material_id dof p T" for p
    by (rule blended_cong [symmetric]) (simp_all add: im1 st, simp add: mp1_def)
  have pr: "properties mp2 = properties mp" "state mp2 = state mp'"
    by (simp_all add: mp2_def mp1_def st)
  define V where "V = (\<lambda>p. (if p < g_n_thermal_state_properties D
                      then property_values mp p dof + blended D mp' material_id dof p T
                      else property_values mp p dof) +
                     (if p = specific_heat_prop D \<and> 0 < l \<and> l < 1
                      then (\<Sum>material_state\<leftarrow>[0..<g_n_material_states D].
                              state mp' material_state dof *
                              properties mp material_id (latent_heat_prop D) / (Tl - Ts))
                      else 0))"
  have pv3: "property_values mp3 p dof = V p" for p
    by (simp add: mp3_def M_def pr V_def) (simp add: mp2_def mp1_def bl [unfolded mp1_def])
  have other: "property_values mp' p d = property_values mp p d" if "d \<noteq> dof" for p d
    using that by (simp add: res radiation_def Let_def mp3_def mp2_def mp1_def)
  have notrad: "property_values mp' p dof = V p"
    if "p \<noteq> radiation_heat_transfer_coef_prop D" for p
    using that pv3 [of p] by (simp add: res radiation_def Let_def)
  have "properties mp3 = properties mp" by (simp add: mp3_def mp2_def mp1_def)
  then have rad: "property_values mp' (radiation_heat_transfer_coef_prop D) dof =
             V (emissivity_prop D) * stefan_boltzmann D * (T + T_infty) *
             (T * T + T_infty * T_infty)"
    using pv3 [of "emissivity_prop D"] by (simp add: res radiation_def Let_def T_infty_def)
  from l st im other notrad rad show ?thesis
    unfolding S1_def V_def by blast
qed


lemma tables_allocated_cong:
  "immutable_members a = immutable_members b \<Longrightarrow> tables_allocated a = tables_allocated b"
  by (simp add: tables_allocated_def immutable_members_def)

lemma properties_cong:
  "immutable_members a = immutable_members b \<Longrightarrow> properties a = properties b"
  by (simp add: immutable_members_def)






subsection \<open>Whole updates\<close>



lemma update_powder:
  assumes ok: "declarations_ok D" and "tables_allocated mp"
    and "update D cells temperature_average mp = Inr mp'"
  shows "state mp' (powder D) dof \<le> state mp (powder D) dof"
proof -
  let ?mp0 = "mp\<lparr>property_values := \<lambda>property dof. 0\<rparr>"
  let ?R = "\<lambda>a b. tables_allocated a \<longrightarrow>
     tables_allocated b \<and> (\<forall>d. state b (powder D) d \<le> state a (powder D) d)"
  have run: "for_each (update_kernel D temperature_average) cells ?mp0 = Inr mp'"
    using assms(3) by (simp add: update_def)
  have ps: "powder D \<noteq> solid D" using ok by (simp add: declarations_ok_def)
  have "?R ?mp0 mp'"
  proof (rule for_each_relation [where R = ?R, OF run])
    fix i a b
    assume k: "update_kernel D temperature_average i a = Inr b"
    show "?R a b"
    proof
      assume a: "tables_allocated a"
      from k have k': "update_kernel D temperature_average (fst i, snd i) a = Inr b" by simp
      from update_kernel_facts [OF a k'] obtain l where
        "state b = set2 (set2 (set2 (state a) (liquid D) (snd i) l) (powder D) (snd i)
                     (std_min (1 - l) (state a (powder D) (snd i))))
               (solid D) (snd i)
               (std_max (1 - l - std_min (1 - l) (state a (powder D) (snd i))) 0)"
        "immutable_members b = immutable_members a" by blast
      with a ps show "tables_allocated b \<and> (\<forall>d. state b (powder D) d \<le> state a (powder D) d)"
        using tables_allocated_cong [of b a] by (auto simp: std_min_def)
    qed
  next
    fix a b c
    assume "?R a b" "?R b c"
    then show "?R a c" by (meson order_trans)
  qed simp
  moreover have "tables_allocated ?mp0" using assms(2) by (simp add: tables_allocated_def)
  ultimately show ?thesis by simp
qed

subsection \<open>The boundary update\<close>

lemma boundary_kernel_result:
  assumes "tables_allocated mp" and "3 \<le> radiation_heat_transfer_coef_prop D"
  shows "\<exists>mp'. boundary_kernel D temperature_average (material_id, dof) mp = Inr mp' \<and>
           immutable_members mp' = immutable_members mp \<and> state mp' = state mp \<and>
           (\<forall>p d. p < 3 \<or> d \<noteq> dof \<longrightarrow> property_values mp' p d = property_values mp p d)"
  using assms
  by (simp add: boundary_kernel_def accumulate_result radiation_def Let_def
      immutable_members_def)

lemma boundary_loop:
  assumes "tables_allocated mp0" and "3 \<le> radiation_heat_transfer_coef_prop D"
  shows "\<exists>mpN. for_each (boundary_kernel D temperature_average) cells mp0 = Inr mpN \<and>
           immutable_members mpN = immutable_members mp0 \<and> state mpN = state mp0 \<and>
           (\<forall>p d. p < 3 \<or> d \<notin> snd ` set cells \<longrightarrow>
                  property_values mpN p d = property_values mp0 p d)"
  using assms(1)
proof (induction cells arbitrary: mp0)
  case Nil
  then show ?case by simp
next
  case (Cons c cs)
  obtain m d where c: "c = (m, d)" by (cases c)
  from boundary_kernel_result [OF Cons.prems assms(2), of temperature_average m d]
  obtain mp1 where
    k: "boundary_kernel D temperature_average (m, d) mp0 = Inr mp1" and
    i1: "immutable_members mp1 = immutable_members mp0" and s1: "state mp1 = state mp0" and
    p1: "\<forall>p e. p < 3 \<or> e \<noteq> d \<longrightarrow> property_values mp1 p e = property_values mp0 p e"
    by blast
  have "tables_allocated mp1" using i1 Cons.prems tables_allocated_cong by blast
  from Cons.IH [OF this] obtain mpN where
    "for_each (boundary_kernel D temperature_average) cs mp1 = Inr mpN"
    "immutable_members mpN = immutable_members mp1" "state mpN = state mp1"
    "\<forall>p e. p < 3 \<or> e \<notin> snd ` set cs \<longrightarrow> property_values mpN p e = property_values mp1 p e"
    by blast
  with k i1 s1 p1 c show ?case by auto
qed

lemma boundary_kernel_values:
  fixes D mp material_id dof temperature_average T T_infty A
  defines "T \<equiv> temperature_average dof"
    and "T_infty \<equiv> properties mp material_id (radiation_temperature_infty_prop D)"
    and "A \<equiv> \<lambda>p. if 3 \<le> p \<and> p < g_n_thermal_state_properties D
                   then property_values mp p dof + blended D mp material_id dof p T
                   else property_values mp p dof"
  assumes "tables_allocated mp"
  shows "\<exists>mp'. boundary_kernel D temperature_average (material_id, dof) mp = Inr mp' \<and>
           immutable_members mp' = immutable_members mp \<and> state mp' = state mp \<and>
           (\<forall>p d. d \<noteq> dof \<longrightarrow> property_values mp' p d = property_values mp p d) \<and>
           (\<forall>p. p \<noteq> radiation_heat_transfer_coef_prop D \<longrightarrow> property_values mp' p dof = A p) \<and>
           property_values mp' (radiation_heat_transfer_coef_prop D) dof =
             A (emissivity_prop D) * stefan_boltzmann D * (T + T_infty) *
             (T * T + T_infty * T_infty)"
  using assms(4)
  by (simp add: boundary_kernel_def accumulate_result radiation_def Let_def
      immutable_members_def T_def T_infty_def A_def)

lemma boundary_loop_unit:
  fixes D mp0 material_id dof temperature_average T T_infty A
  defines "T \<equiv> temperature_average dof"
    and "T_infty \<equiv> properties mp0 material_id (radiation_temperature_infty_prop D)"
    and "A \<equiv> \<lambda>p. if 3 \<le> p \<and> p < g_n_thermal_state_properties D
                   then property_values mp0 p dof + blended D mp0 material_id dof p T
                   else property_values mp0 p dof"
  assumes "tables_allocated mp0" and "3 \<le> radiation_heat_transfer_coef_prop D"
    and "for_each (boundary_kernel D temperature_average) cells mp0 = Inr mpN"
    and "distinct (map snd cells)" and "(material_id, dof) \<in> set cells"
  shows "(\<forall>p. p \<noteq> radiation_heat_transfer_coef_prop D \<longrightarrow> property_values mpN p dof = A p) \<and>
         property_values mpN (radiation_heat_transfer_coef_prop D) dof =
           A (emissivity_prop D) * stefan_boltzmann D * (T + T_infty) *
           (T * T + T_infty * T_infty)"
  using assms(4,6-) unfolding A_def T_infty_def
proof (induction cells arbitrary: mp0)
  case Nil
  then show ?case by simp
next
  case (Cons c cs)
  obtain m d where c: "c = (m, d)" by (cases c)
  from boundary_kernel_values [OF Cons.prems(1), of D temperature_average m d]
  obtain mp1 where
    k: "boundary_kernel D temperature_average (m, d) mp0 = Inr mp1" and
    i1: "immutable_members mp1 = immutable_members mp0" and s1: "state mp1 = state mp0" and
    o1: "\<forall>p e. e \<noteq> d \<longrightarrow> property_values mp1 p e = property_values mp0 p e" and
    v1: "\<forall>p. p \<noteq> radiation_heat_transfer_coef_prop D \<longrightarrow> property_values mp1 p d =
           (if 3 \<le> p \<and> p < g_n_thermal_state_properties D
            then property_values mp0 p d + blended D mp0 m d p (temperature_average d)
            else property_values mp0 p d)" and
    r1: "property_values mp1 (radiation_heat_transfer_coef_prop D) d =
           (if 3 \<le> emissivity_prop D \<and> emissivity_prop D < g_n_thermal_state_properties D
            then property_values mp0 (emissivity_prop D) d +
                 blended D mp0 m d (emissivity_prop D) (temperature_average d)
            else property_values mp0 (emissivity_prop D) d) * stefan_boltzmann D *
           (temperature_average d + properties mp0 m (radiation_temperature_infty_prop D)) *
           (temperature_average d * temperature_average d +
            properties mp0 m (radiation_temperature_infty_prop D) *
            properties mp0 m (radiation_temperature_infty_prop D))"
    by blast
  from Cons.prems(2) k c have r: "for_each (boundary_kernel D temperature_average) cs mp1 = Inr mpN"
    by simp
  have a1: "tables_allocated mp1" using i1 Cons.prems(1) tables_allocated_cong by blast
  have dcs: "distinct (map snd cs)" and dn: "d \<notin> snd ` set cs"
    using Cons.prems(3) c by auto
  show ?case
  proof (cases "(material_id, dof) = c")
    case True
    then have md: "m = material_id" "d = dof" using c by simp_all
    from boundary_loop [OF a1 assms(5), of temperature_average cs] r dn
    have "\<forall>p. property_values mpN p d = property_values mp1 p d" by auto
    with v1 r1 md show ?thesis unfolding T_def by simp
  next
    case False
    with Cons.prems(4) have mem: "(material_id, dof) \<in> set cs" by simp
    then have "dof \<in> snd ` set cs" by force
    with dn have dd: "dof \<noteq> d" by auto
    have bl: "blended D mp1 material_id dof p T = blended D mp0 material_id dof p T" for p
      by (rule blended_cong) (simp_all add: i1 s1)
    have pr: "properties mp1 = properties mp0" using i1 by (rule properties_cong)
    from Cons.IH [OF a1 r dcs mem] o1 dd show ?thesis
      unfolding T_def [symmetric] by (simp add: bl pr)
  qed
qed

section \<open>The claims\<close>


lemma example_material_allocated: "tables_allocated example_material"
  by (simp add: tables_allocated_def example_material_def)


text \<open>The example material after one update at the temperature 1050.\<close>

lemma example_blended:
  "blended example_declarations example_material 0 0 p T = 4 / 5"
proof -
  have "[0..<3] = [0, 1, 2]" "[0..<5] = [0, 1, 2, 3, 4]" by (simp_all add: upt_rec)
  then show ?thesis
    by (simp add: blended_def curve_value_def example_material_def example_state_def
        example_declarations_def)
qed






text \<open>
  When the solidus and the liquidus coincide, the liquid fraction is 0 below the common
  value and 1 above it; at the common value neither strict comparison holds and the
  kernel divides zero by zero.
\<close>

lemma liquid_ratio_at_coincident:
  "liquid_ratio_at T Tm Tm =
     (if T < Tm then Inr 0 else if Tm < T then Inr 1 else Inl DivisionByZero)"
  by (simp add: liquid_ratio_at_def fdiv_def)

text \<open>
  Claim C2 says that the update never divides by zero when the solidus equals the
  liquidus. The code does: for a material whose solidus and liquidus are both 1000 and
  a unit whose temperature is 1000, the division of line 309 has the divisor
  \<open>liquidus - solidus = 0\<close>.
\<close>

theorem update_divides_by_zero:
  "update example_declarations [(0, 0)] temperature_1000 melting_point_material =
     Inl DivisionByZero"
  by (simp add: update_def update_kernel_def Let_def liquid_ratio_at_def fdiv_def
      melting_point_material_def example_material_def melting_point_properties_def
      example_declarations_def temperature_1000_def)

text \<open>
  Where the division is defined, the phase update on doubles writes the fractions of the
  model on the reals.
\<close>

lemma update_kernel_state_finite:
  assumes "liquid_ratio_at temperature solidus liquidus = Inr l"
  shows "update_kernel_state D temperature solidus liquidus (\<lambda>s. Finite (st s)) =
           (\<lambda>s. Finite
              ((((st(liquid D := l))
                  (powder D := std_min (1 - l) (st (powder D))))
                  (solid D := std_max (1 - l - std_min (1 - l) (st (powder D))) 0)) s))"
  using assms
  by (auto simp: update_kernel_state_def liquid_ratio_at_Inr d_div_def d_min_def d_max_def
      std_min_def std_max_def Let_def fun_eq_iff)

text \<open>
  Where it is not, at a temperature equal to the solidus and to the liquidus, the three
  fractions written are NaN, whatever they were.
\<close>

lemma update_kernel_state_nan:
  assumes "liquid_ratio_at temperature solidus liquidus = Inl e"
  shows "update_kernel_state D temperature solidus liquidus st =
           ((st(liquid D := NaN))(powder D := NaN))(solid D := NaN)"
proof -
  from assms have "temperature = solidus" "liquidus = solidus"
    by (auto simp: liquid_ratio_at_def fdiv_def split: if_splits)
  then show ?thesis
    by (simp add: update_kernel_state_def d_div_def d_min_def d_max_def Let_def)
qed

text \<open>
  A solid unit of a material whose solidus and liquidus are both 1000, after one call at
  the temperature 1000: its powder fraction is NaN.
\<close>

lemma powder_after_nan:
  "update_kernel_state example_declarations 1000 1000 1000 solid_unit
     (powder example_declarations) = NaN"
  by (simp add: update_kernel_state_def d_div_def d_min_def d_max_def Let_def
      example_declarations_def solid_unit_def)

text \<open>
  Claim C3 says that the powder fraction never increases, whatever the temperatures.
  The code creates powder: for the same solid unit, powder fraction 0, a call at the
  temperature 1000 stores NaN (line 309 divides zero by zero, and
  \<^verbatim>\<open>std::min(NaN, 0.)\<close> of line 313 is NaN), and the next call, at 900, writes
  \<^verbatim>\<open>std::min(1., NaN)\<close>, which is 1. Away from that division a call does not increase
  the powder fraction (\<open>update_powder\<close>).
\<close>

theorem powder_created:
  "solid_unit (powder example_declarations) = Finite 0 \<and>
   update_state_sequence example_declarations 1000 1000 [1000, 900] solid_unit
     (powder example_declarations) = Finite 1"
  by (simp add: update_state_sequence_def update_kernel_state_def d_div_def d_min_def
      d_max_def Let_def example_declarations_def solid_unit_def)



text \<open>The breakpoints of a curve, and the evaluator at one of them.\<close>

lemma breakpoints_ascending_less:
  assumes "breakpoints_ascending v m s p n" and "i < j" and "j < n"
  shows "at5 v m s p i 0 < at5 v m s p j 0"
  using assms
  by (simp add: breakpoints_ascending_def sorted_wrt_map sorted_wrt_upt sorted_wrt_iff_nth_less)

lemma interior_breakpoint:
  assumes asc: "breakpoints_ascending v m s p n"
    and k: "0 < k" "k + 1 < n" "k + 2 < extent3 v"
  shows "compute_property_from_table v m s p (at5 v m s p k 0) = Inr (at5 v m s p k 1)"
proof -
  let ?bp = "\<lambda>i. at5 v m s p i 0"
  let ?T = "?bp k"
  have notlt: "\<not> ?T < ?bp j" if "j < k + 1" for j
  proof (cases "j = k")
    case True then show ?thesis by simp
  next
    case False
    with that have "j < k" by simp
    with k have "?bp j < ?bp k" by (intro breakpoints_ascending_less [OF asc]) simp_all
    then show ?thesis by simp
  qed
  have next_bp: "?T < ?bp (k + 1)"
    using k by (intro breakpoints_ascending_less [OF asc]) simp_all
  with notlt k have scan: "table_scan ?bp ?T (extent3 v) 0 = k + 1"
    by (intro table_scan_first) simp_all
  have "?bp 0 < ?bp k" using k by (intro breakpoints_ascending_less [OF asc]) simp_all
  then have nl: "\<not> ?T \<le> ?bp 0" by simp
  have nz: "?bp (k + 1) - ?bp k \<noteq> 0" using next_bp by simp
  have "u32_sub (extent3 v) 1 = extent3 v - 1" using k by simp
  moreover have "\<not> extent3 v - 1 \<le> k + 1" using k by simp
  ultimately show ?thesis using nl scan nz k
    by (simp add: compute_property_from_table_def Let_def fdiv_def)
qed

text \<open>
  At the breakpoint before the last one of a curve that fills its table the scan stops
  at the last index, and the evaluator returns the last value.
\<close>

lemma second_to_last_breakpoint:
  assumes asc: "breakpoints_ascending v m s p (extent3 v)" and n: "3 \<le> extent3 v"
  shows "compute_property_from_table v m s p (at5 v m s p (extent3 v - 2) 0) =
           Inr (at5 v m s p (extent3 v - 1) 1)"
proof -
  let ?bp = "\<lambda>i. at5 v m s p i 0"
  let ?n = "extent3 v"
  let ?k = "?n - 2"
  have notlt: "\<not> ?bp ?k < ?bp j" if "j < ?n - 1" for j
  proof (cases "j = ?k")
    case True then show ?thesis by simp
  next
    case False
    with that have "j < ?k" by simp
    with n have "?bp j < ?bp ?k" by (intro breakpoints_ascending_less [OF asc]) simp_all
    then show ?thesis by simp
  qed
  have "?bp ?k < ?bp (?n - 1)" using n by (intro breakpoints_ascending_less [OF asc]) simp_all
  with notlt n have scan: "table_scan ?bp (?bp ?k) ?n 0 = ?n - 1"
    by (intro table_scan_first) simp_all
  have "?bp 0 < ?bp ?k" using n by (intro breakpoints_ascending_less [OF asc]) simp_all
  then have nl: "\<not> ?bp ?k \<le> ?bp 0" by simp
  have "u32_sub ?n 1 = ?n - 1" using n by simp
  with nl scan show ?thesis
    by (simp add: compute_property_from_table_def Let_def)
qed

text \<open>
  Claim C5, amended. \<open>compute_property_from_table\<close> computes what the specification
  describes: the first value when \<open>T \<le> breakpoint[0]\<close>; otherwise, with \<open>i\<close> the first
  index such that \<open>T < breakpoint[i]\<close>, the last value when there is no such index or
  when \<open>i\<close> is the last index, and the linear interpolation between the points \<open>i - 1\<close>
  and \<open>i\<close> otherwise. For a curve of \<open>n\<close> pairs with strictly ascending breakpoints,
  stored in a table of its size or larger, the value at an interior breakpoint \<open>k\<close>
  (\<open>0 < k\<close> and \<open>k + 1 < n\<close>) is the value of that breakpoint, provided \<open>k + 1\<close> is not
  the last index of the table: this leaves out only the breakpoint before the last of
  a curve that fills the table. The table \<^verbatim>\<open>0,10;100,20;200,20\<close>, read into a table of
  any capacity from 3 on, gives 20 at \<open>T = 150\<close> and 15 at \<open>T = 50\<close>.
\<close>

theorem table_evaluator_amended:
  "(0 < extent3 v \<longrightarrow>
      compute_property_from_table v m s p T =
        Inr (table_evaluator_spec (\<lambda>i. at5 v m s p i 0) (\<lambda>i. at5 v m s p i 1) (extent3 v) T)) \<and>
   (breakpoints_ascending v m s p n \<and> 0 < k \<and> k + 1 < n \<and> k + 2 < extent3 v \<longrightarrow>
      compute_property_from_table v m s p (at5 v m s p k 0) = Inr (at5 v m s p k 1)) \<and>
   (3 \<le> table_size D \<and> extent3 view = table_size D \<and>
    stod ''0'' = Inr 0 \<and> stod ''10'' = Inr 10 \<and> stod ''100'' = Inr 100 \<and>
    stod ''20'' = Inr 20 \<and> stod ''200'' = Inr 200 \<longrightarrow>
      (\<exists>view'. read_table stod D m s p ''0,10;100,20;200,20'' view = Inr view' \<and>
         compute_property_from_table view' m s p 150 = Inr 20 \<and>
         compute_property_from_table view' m s p 50 = Inr 15))"
proof (intro conjI impI)
  assume "0 < extent3 v"
  then show "compute_property_from_table v m s p T =
        Inr (table_evaluator_spec (\<lambda>i. at5 v m s p i 0) (\<lambda>i. at5 v m s p i 1) (extent3 v) T)"
    by (rule compute_property_from_table_refines)
next
  assume "breakpoints_ascending v m s p n \<and> 0 < k \<and> k + 1 < n \<and> k + 2 < extent3 v"
  then show "compute_property_from_table v m s p (at5 v m s p k 0) = Inr (at5 v m s p k 1)"
    by (intro interior_breakpoint [of v m s p n]) simp_all
next
  assume a: "3 \<le> table_size D \<and> extent3 view = table_size D \<and>
    stod ''0'' = Inr 0 \<and> stod ''10'' = Inr 10 \<and> stod ''100'' = Inr 100 \<and>
    stod ''20'' = Inr 20 \<and> stod ''200'' = Inr 200"
  then have "\<exists>v'. read_table stod D m s p ''0,10;100,20;200,20'' view = Inr v' \<and>
           extent3 v' = extent3 view \<and>
           at5 v' m s p 0 0 = 0 \<and> at5 v' m s p 0 1 = 10 \<and>
           at5 v' m s p 1 0 = 100 \<and> at5 v' m s p 1 1 = 20 \<and>
           at5 v' m s p 2 0 = 200 \<and> at5 v' m s p 2 1 = 20"
    by (intro read_table_scenario) simp_all
  then obtain v' where r: "read_table stod D m s p ''0,10;100,20;200,20'' view = Inr v'"
    and e: "extent3 v' = extent3 view"
    and rows: "at5 v' m s p 0 0 = 0" "at5 v' m s p 0 1 = 10"
           "at5 v' m s p 1 0 = 100" "at5 v' m s p 1 1 = 20"
           "at5 v' m s p 2 0 = 200" "at5 v' m s p 2 1 = 20" by blast
  have "3 \<le> extent3 v'" using a e by simp
  from scenario_rows [OF this rows] r
  show "\<exists>view'. read_table stod D m s p ''0,10;100,20;200,20'' view = Inr view' \<and>
         compute_property_from_table view' m s p 150 = Inr 20 \<and>
         compute_property_from_table view' m s p 50 = Inr 15" by blast
qed

lemma padded_table_ascending: "breakpoints_ascending padded_table 0 0 0 3"
proof -
  have "[0..<3] = [0, 1, 2]" by (simp add: upt_rec)
  then show ?thesis by (simp add: breakpoints_ascending_def padded_table_def full_table_def)
qed

text \<open>
  The three parts on concrete tables: the curve \<^verbatim>\<open>0,10;100,20;200,30\<close> in a table of
  four rows, evaluated at 150 and at its interior breakpoint 100, and the table of the
  scenario read from its string.
\<close>

theorem table_evaluator_amended_witness:
  "0 < extent3 padded_table \<and>
   compute_property_from_table padded_table 0 0 0 150 =
     Inr (table_evaluator_spec (\<lambda>i. at5 padded_table 0 0 0 i 0)
            (\<lambda>i. at5 padded_table 0 0 0 i 1) (extent3 padded_table) 150) \<and>
   breakpoints_ascending padded_table 0 0 0 3 \<and>
   at5 padded_table 0 0 0 1 0 = 100 \<and>
   compute_property_from_table padded_table 0 0 0 100 = Inr 20 \<and>
   (\<exists>view'. read_table stod_digits example_declarations 0 0 0 ''0,10;100,20;200,20''
              (state_property_tables example_material) = Inr view' \<and>
            compute_property_from_table view' 0 0 0 150 = Inr 20 \<and>
            compute_property_from_table view' 0 0 0 50 = Inr 15)"
proof -
  have e: "0 < extent3 padded_table" "(1::nat) + 2 < extent3 padded_table"
    by (simp_all add: padded_table_def)
  have r: "at5 padded_table 0 0 0 1 0 = 100" "at5 padded_table 0 0 0 1 1 = 20"
    by (simp_all add: padded_table_def full_table_def)
  have t: "3 \<le> table_size example_declarations"
    "extent3 (state_property_tables example_material) = table_size example_declarations"
    by (simp_all add: example_declarations_def example_material_def)
  note inst = table_evaluator_amended [of padded_table 0 0 0 150 3 1 example_declarations
      "state_property_tables example_material" stod_digits]
  from inst e padded_table_ascending r t stod_digits_examples show ?thesis by simp
qed

lemma full_table_scan: "table_scan (\<lambda>i. at5 full_table 0 0 0 i 0) 100 3 0 = 2"
  by (rule table_scan_first) (auto simp: full_table_def less_Suc_eq numeral_2_eq_2)

text \<open>
  The consequence of claim C5 as it is stated fails: the curve \<^verbatim>\<open>0,10;100,20;200,30\<close>
  fills a table of capacity 3, its breakpoints ascend strictly, and at the interior
  breakpoint 100 the evaluator returns 30, not 20.
\<close>

theorem full_table_counterexample:
  "breakpoints_ascending full_table 0 0 0 3 \<and>
   compute_property_from_table full_table 0 0 0 (at5 full_table 0 0 0 1 0) = Inr 30 \<and>
   at5 full_table 0 0 0 1 1 = 20"
proof -
  have "[0..<3] = [0, 1, 2]" by (simp add: upt_rec)
  then have a: "breakpoints_ascending full_table 0 0 0 3"
    by (simp add: breakpoints_ascending_def full_table_def)
  have t: "at5 full_table 0 0 0 1 0 = 100" by (simp add: full_table_def)
  have "compute_property_from_table full_table 0 0 0 100 = Inr 30"
    using full_table_scan
    by (simp add: compute_property_from_table_def Let_def full_table_def)
  with a t show ?thesis by (simp add: full_table_def)
qed



text \<open>
  Claim C7 says that a polynomial that fills the capacity, \<^verbatim>\<open>polynomial_order + 1\<close>
  coefficients, is accepted. The code compares the number of coefficients with
  \<^verbatim>\<open>polynomial_order\<close>: with \<^verbatim>\<open>polynomial_order\<close> 4, five coefficients are refused,
  although five are stored and read for every property.
\<close>

theorem read_polynomial_rejects_full:
  "read_state_property stod_digits example_declarations 0 0 0 ''1, 2, 3, 4, 5''
     example_material =
     Inl (ConfigurationError ''Too many coefficients, increase the polynomial order'')"
  by (simp add: read_state_property_def read_polynomial_def example_material_def
      example_declarations_def isspace_def)

text \<open>The two capacity checks, for every reader of numbers and every capacity.\<close>

lemma read_polynomial_capacity:
  assumes "polynomial_order D < length (split (\<lambda>c. c = CHR '','') property_string)"
  shows "read_polynomial stod D m s p property_string view =
     Inl (ConfigurationError ''Too many coefficients, increase the polynomial order'')"
  using assms by (simp add: read_polynomial_def)

lemma read_table_capacity:
  assumes "table_size D < length (split (\<lambda>c. c = CHR '';'') property_string)"
  shows "read_table stod D m s p property_string view =
     Inl (ConfigurationError ''Too many coefficients, increase the table size'')"
  using assms by (simp add: read_table_def)



text \<open>
  Claim C9, amended. In \<^verbatim>\<open>setup_dofs\<close> with the thermal \<^verbatim>\<open>DoFHandler\<close>, a locally owned
  cell gets the active index 0 exactly when its solid fraction exceeds 0.99 and its
  thermal cell has the active index 0; with a thermal index of 0 or 1 it gets the index
  1 otherwise. In the constructor the cell gets the index 0 when its solid fraction
  exceeds 0.99 and the index 1 otherwise: the thermal cell is not looked at.
\<close>

theorem activation_amended:
  assumes "i < length cells" and "is_locally_owned (cells ! i)"
  shows "(active_fe_index (setup_dofs D mp cells ! i) = 0 \<longleftrightarrow>
            get_state_ratio mp (cells ! i) (solid D) > 99 / 100 \<and>
            thermal_active_fe_index (cells ! i) = 0) \<and>
         (thermal_active_fe_index (cells ! i) \<le> 1 \<longrightarrow>
            active_fe_index (setup_dofs D mp cells ! i) =
              (if get_state_ratio mp (cells ! i) (solid D) > 99 / 100 \<and>
                  thermal_active_fe_index (cells ! i) = 0 then 0 else 1)) \<and>
         active_fe_index (MechanicalPhysics_constructor D mp cells ! i) =
           (if get_state_ratio mp (cells ! i) (solid D) > 99 / 100 then 0 else 1)"
  using assms by (auto simp: setup_dofs_def MechanicalPhysics_constructor_def)

theorem activation_amended_witness:
  "active_fe_index (setup_dofs example_declarations solid_material
      [thermally_active_cell, thermally_inactive_cell] ! 0) = 0 \<and>
   active_fe_index (setup_dofs example_declarations solid_material
      [thermally_active_cell, thermally_inactive_cell] ! 1) = 1 \<and>
   active_fe_index (MechanicalPhysics_constructor example_declarations solid_material
      [thermally_active_cell, thermally_inactive_cell] ! 0) = 0"
proof -
  have c: "is_locally_owned thermally_active_cell" "is_locally_owned thermally_inactive_cell"
    "thermal_active_fe_index thermally_active_cell = 0"
    "thermal_active_fe_index thermally_inactive_cell = 1"
    by (simp_all add: thermally_active_cell_def thermally_inactive_cell_def)
  have s: "get_state_ratio solid_material thermally_active_cell (solid example_declarations) = 1"
    "get_state_ratio solid_material thermally_inactive_cell (solid example_declarations) = 1"
    by (simp_all add: get_state_ratio_def solid_material_def example_declarations_def)
  from activation_amended [of 0 "[thermally_active_cell, thermally_inactive_cell]"
      example_declarations solid_material]
    activation_amended [of 1 "[thermally_active_cell, thermally_inactive_cell]"
      example_declarations solid_material] c s
  show ?thesis by simp
qed

text \<open>
  The claim as stated fails for the constructor: a solid cell whose thermal cell is
  not active gets the active index 0.
\<close>

theorem constructor_counterexample:
  "is_locally_owned thermally_inactive_cell \<and>
   get_state_ratio solid_material thermally_inactive_cell (solid example_declarations) > 99 / 100 \<and>
   thermal_active_fe_index thermally_inactive_cell \<noteq> 0 \<and>
   active_fe_index (MechanicalPhysics_constructor example_declarations solid_material
      [thermally_inactive_cell] ! 0) = 0"
  by (simp add: MechanicalPhysics_constructor_def thermally_inactive_cell_def
      get_state_ratio_def solid_material_def example_declarations_def)

text \<open>
  Claim C10. \<^verbatim>\<open>update_boundary_material_properties\<close> always returns and leaves the
  state fractions as they were. It sets every property value to zero and then, for the
  unit of each cell, accumulates the blended values of the properties from index 3 on
  and assigns the radiation coefficient: the first three property values of every unit
  are 0 afterwards, as is every value of a unit that belongs to no cell. The radiation
  coefficient is the one value assigned outside the accumulation; the comment of the
  code places the properties of the boundary condition, of which it is one, from
  index 3 on.
\<close>

theorem boundary_update_frame:
  assumes "tables_allocated mp" and "3 \<le> radiation_heat_transfer_coef_prop D"
  shows "\<exists>mp'. update_boundary_material_properties D cells temperature_average mp = Inr mp' \<and>
           state mp' = state mp \<and>
           (\<forall>property dof. property < 3 \<longrightarrow> property_values mp' property dof = 0) \<and>
           (\<forall>property dof. dof \<notin> snd ` set cells \<longrightarrow> property_values mp' property dof = 0) \<and>
           (distinct (map snd cells) \<longrightarrow>
              (\<forall>(material_id, dof) \<in> set cells. \<forall>property.
                 property \<noteq> radiation_heat_transfer_coef_prop D \<longrightarrow>
                 property_values mp' property dof =
                   (if 3 \<le> property \<and> property < g_n_thermal_state_properties D
                    then blended D mp material_id dof property (temperature_average dof)
                    else 0)))"
proof -
  let ?mp0 = "mp\<lparr>property_values := \<lambda>property dof. 0\<rparr>"
  have a0: "tables_allocated ?mp0" using assms(1) by (simp add: tables_allocated_def)
  from boundary_loop [OF a0 assms(2), of temperature_average cells]
  obtain mp' where
    run: "for_each (boundary_kernel D temperature_average) cells ?mp0 = Inr mp'" and
    st: "state mp' = state mp" and
    z: "\<forall>p d. p < 3 \<or> d \<notin> snd ` set cells \<longrightarrow> property_values mp' p d = 0"
    by auto
  have bl: "blended D ?mp0 m d p T = blended D mp m d p T" for m d p T
    by (rule blended_cong) (simp_all add: immutable_members_def)
  have "\<forall>(material_id, dof) \<in> set cells. \<forall>property.
                 property \<noteq> radiation_heat_transfer_coef_prop D \<longrightarrow>
                 property_values mp' property dof =
                   (if 3 \<le> property \<and> property < g_n_thermal_state_properties D
                    then blended D mp material_id dof property (temperature_average dof)
                    else 0)"
    if d: "distinct (map snd cells)"
  proof (intro ballI, clarify)
    fix m d p
    assume "(m, d) \<in> set cells" "p \<noteq> radiation_heat_transfer_coef_prop D"
    with boundary_loop_unit [OF a0 assms(2) run d, of m d]
    show "property_values mp' p d =
            (if 3 \<le> p \<and> p < g_n_thermal_state_properties D
             then blended D mp m d p (temperature_average d) else 0)"
      by (simp add: bl)
  qed
  with run st z show ?thesis
    by (auto simp: update_boundary_material_properties_def)
qed

theorem boundary_update_frame_witness:
  "\<exists>mp'. update_boundary_material_properties example_declarations [(0, 0)] temperature_1050
            example_material = Inr mp' \<and>
         state mp' = example_state \<and>
         property_values mp' 0 0 = 0 \<and> property_values mp' 1 0 = 0 \<and>
         property_values mp' 2 0 = 0 \<and> property_values mp' 5 0 = 4 / 5"
proof -
  have "3 \<le> radiation_heat_transfer_coef_prop example_declarations"
    by (simp add: example_declarations_def)
  from boundary_update_frame [OF example_material_allocated this, of "[(0, 0)]"
      temperature_1050]
  obtain mp' where
    r: "update_boundary_material_properties example_declarations [(0, 0)] temperature_1050
            example_material = Inr mp'" and
    s: "state mp' = state example_material" and
    z: "\<forall>property dof. property < 3 \<longrightarrow> property_values mp' property dof = 0" and
    v: "\<forall>property. property \<noteq> radiation_heat_transfer_coef_prop example_declarations \<longrightarrow>
          property_values mp' property 0 =
            (if 3 \<le> property \<and> property < g_n_thermal_state_properties example_declarations
             then blended example_declarations example_material 0 0 property
                    (temperature_1050 0)
             else 0)"
    by auto
  have "(5::nat) \<noteq> radiation_heat_transfer_coef_prop example_declarations"
    "(5::nat) < g_n_thermal_state_properties example_declarations"
    by (simp_all add: example_declarations_def)
  with v have "property_values mp' 5 0 = 4 / 5"
    by (simp add: example_blended)
  with r s z show ?thesis by (auto simp: example_material_def)
qed

end
